theory Spec2Isabelle
  imports Main "HOL-Library.Word"
begin

unbundle bit_operations_syntax

section \<open>The wallet keystore of cosmos-keys\<close>

text \<open>
  A shallow embedding of \<^verbatim>\<open>src/cosmos-keystore.ts\<close>. The module stores wallets,
  encrypted under a password, in the browser's \<^verbatim>\<open>localStorage\<close>, one entry per
  address, and keeps an index of the stored names.

  The module calls into two things that are not part of the repository: the JavaScript
  runtime (\<^verbatim>\<open>JSON.parse\<close>, \<^verbatim>\<open>JSON.stringify\<close>, \<^verbatim>\<open>localStorage\<close>) and the CryptoJS
  library (\<^verbatim>\<open>PBKDF2\<close>, \<^verbatim>\<open>AES\<close>, \<^verbatim>\<open>enc.Hex.parse\<close>, \<^verbatim>\<open>lib.WordArray.random\<close>).
  \<^verbatim>\<open>localStorage\<close> and the random source are state, passed explicitly. The other
  library functions are the fields of a record \<open>env\<close> that every operation takes; what
  a theorem needs of them is a hypothesis of that theorem.
\<close>

subsection \<open>JavaScript values\<close>

text \<open>What \<^verbatim>\<open>JSON.parse\<close> returns. An object is the list of its properties.\<close>

datatype json =
    JNull
  | JBool bool
  | JNum int
  | JStr string
  | JArr "json list"
  | JObj "(string \<times> json) list"

text \<open>
  What the module can throw: an \<^verbatim>\<open>Error\<close> with its message, the \<^verbatim>\<open>SyntaxError\<close> of
  \<^verbatim>\<open>JSON.parse\<close>, and the \<^verbatim>\<open>TypeError\<close> of a property read on \<^verbatim>\<open>null\<close> or
  \<^verbatim>\<open>undefined\<close> and of a call of something that is not a function.
\<close>

datatype error = Error string | SyntaxError | TypeError

text \<open>The truth value of a parsed value in a condition (\<^verbatim>\<open>if (!storedWallet)\<close>).\<close>

fun truthy :: "json \<Rightarrow> bool" where
  "truthy JNull = False"
| "truthy (JBool b) = b"
| "truthy (JNum n) = (n \<noteq> 0)"
| "truthy (JStr s) = (s \<noteq> [])"
| "truthy (JArr xs) = True"
| "truthy (JObj fs) = True"

text \<open>
  A read of one of the properties \<^verbatim>\<open>name\<close>, \<^verbatim>\<open>address\<close>, \<^verbatim>\<open>wallet\<close> on a value
  other than \<^verbatim>\<open>null\<close>; \<open>None\<close> is \<^verbatim>\<open>undefined\<close>. Only an object can have them.
\<close>

fun member :: "json \<Rightarrow> string \<Rightarrow> json option" where
  "member (JObj fs) k = map_of fs k"
| "member v k = None"

subsection \<open>Types of the module\<close>

text \<open>
  \<^verbatim>\<open>types.ts\<close> is not among the sources. A wallet has the three text fields of the
  objects in \<^verbatim>\<open>test/keys.spec.ts\<close>; a stored wallet is the object literal of
  \<^verbatim>\<open>addToStorage\<close>, an index entry the one of \<^verbatim>\<open>addToIndex\<close>.
\<close>

record Wallet =
  cosmosAddress :: string
  privateKey :: string
  publicKey :: string

definition Wallet_json :: "Wallet \<Rightarrow> json" where
  "Wallet_json wallet = JObj
     [(''cosmosAddress'', JStr (cosmosAddress wallet)),
      (''privateKey'', JStr (privateKey wallet)),
      (''publicKey'', JStr (publicKey wallet))]"

definition StoredWallet_json :: "string \<Rightarrow> string \<Rightarrow> string \<Rightarrow> json" where
  "StoredWallet_json name address ciphertext = JObj
     [(''name'', JStr name), (''address'', JStr address), (''wallet'', JStr ciphertext)]"

definition IndexEntry_json :: "string \<times> string \<Rightarrow> json" where
  "IndexEntry_json e = JObj [(''name'', JStr (fst e)), (''address'', JStr (snd e))]"

subsection \<open>The library and the state\<close>

type_synonym bytes = "8 word list"

text \<open>
  \<open>JSON_parse\<close> and \<open>AES_decrypt\<close> return \<open>None\<close> where the library throws
  (\<^verbatim>\<open>AES.decrypt(...).toString(CryptoJS.enc.Utf8)\<close> throws on bytes that are not UTF-8).
  \<open>PBKDF2 password salt keySize iterations\<close> has the key size in 32-bit words, as
  CryptoJS counts it. \<open>AES_encrypt message key iv\<close> is the text of
  \<^verbatim>\<open>AES.encrypt(...).toString()\<close>.
\<close>

record env =
  JSON_parse :: "string \<Rightarrow> json option"
  JSON_stringify :: "json \<Rightarrow> string"
  PBKDF2 :: "string \<Rightarrow> bytes \<Rightarrow> nat \<Rightarrow> nat \<Rightarrow> bytes"
  AES_encrypt :: "string \<Rightarrow> bytes \<Rightarrow> bytes \<Rightarrow> string"
  AES_decrypt :: "string \<Rightarrow> bytes \<Rightarrow> bytes \<Rightarrow> string option"
  Hex_parse :: "string \<Rightarrow> bytes"

text \<open>
  The state: the key-value store and the bytes the random source will deliver next.
\<close>

record world =
  localStorage :: "string \<rightharpoonup> string"
  entropy :: "nat \<Rightarrow> 8 word"

type_synonym 'a outcome = "(error + 'a) \<times> world"

definition getItem :: "string \<Rightarrow> world \<Rightarrow> string option \<times> world" where
  "getItem k w = (localStorage w k, w)"

definition setItem :: "string \<Rightarrow> string \<Rightarrow> world \<Rightarrow> world" where
  "setItem k v w = w\<lparr>localStorage := (localStorage w)(k \<mapsto> v)\<rparr>"

definition removeItem :: "string \<Rightarrow> world \<Rightarrow> world" where
  "removeItem k w = w\<lparr>localStorage := (localStorage w)(k := None)\<rparr>"

text \<open>\<^verbatim>\<open>WordArray.random(n)\<close>: the next \<open>n\<close> bytes of the source.\<close>

definition WordArray_random :: "nat \<Rightarrow> world \<Rightarrow> bytes \<times> world" where
  "WordArray_random n w = (map (entropy w) [0..<n], w\<lparr>entropy := (\<lambda>i. entropy w (i + n))\<rparr>)"

text \<open>
  \<^verbatim>\<open>WordArray.toString()\<close> encodes with \<^verbatim>\<open>enc.Hex\<close>: two lower-case digits a byte,
  the high nibble first.
\<close>

definition hex_digit :: "8 word \<Rightarrow> char" where
  "hex_digit n = ''0123456789abcdef'' ! unat (n AND 15)"

definition WordArray_toString :: "bytes \<Rightarrow> string" where
  "WordArray_toString bs = concat (map (\<lambda>b. [hex_digit (drop_bit 4 b), hex_digit b]) bs)"

subsection \<open>The module\<close>

definition KEY_TAG :: string where
  "KEY_TAG = ''cosmos-wallets''"

definition keySize :: nat where
  "keySize = 256"

definition iterations :: nat where
  "iterations = 100"

text \<open>\<^verbatim>\<open>getItem(k) || '[]'\<close>: the default stands for a missing and for an empty text.\<close>

definition or_default :: "string option \<Rightarrow> string \<Rightarrow> string" where
  "or_default item d = (case item of None \<Rightarrow> d | Some t \<Rightarrow> if t = [] then d else t)"

definition getWalletIndex :: "env \<Rightarrow> world \<Rightarrow> json outcome" where
  "getWalletIndex env w =
     (let (item, w1) = getItem (KEY_TAG @ ''-index'') w in
      case JSON_parse env (or_default item ''[]'') of
        None \<Rightarrow> (Inl SyntaxError, w1)
      | Some v \<Rightarrow> (Inr v, w1))"

text \<open>\<open>JNull\<close> is the \<^verbatim>\<open>null\<close> of a missing entry (and of a stored text \<^verbatim>\<open>null\<close>).\<close>

definition loadFromStorage :: "env \<Rightarrow> string \<Rightarrow> world \<Rightarrow> json outcome" where
  "loadFromStorage env address w =
     (let (storedKey, w1) = getItem (KEY_TAG @ ''-'' @ address) w in
      case storedKey of
        None \<Rightarrow> (Inr JNull, w1)
      | Some t \<Rightarrow>
          if t = [] then (Inr JNull, w1)
          else (case JSON_parse env t of
                  None \<Rightarrow> (Inl SyntaxError, w1)
                | Some v \<Rightarrow> (Inr v, w1)))"

definition encrypt :: "env \<Rightarrow> string \<Rightarrow> string \<Rightarrow> world \<Rightarrow> string \<times> world" where
  "encrypt env message password w =
     (let (salt, w1) = WordArray_random (128 div 8) w;
          key = PBKDF2 env password salt (keySize div 32) iterations;
          (iv, w2) = WordArray_random (128 div 8) w1;
          encrypted = AES_encrypt env message key iv;
          transitmessage = WordArray_toString salt @ WordArray_toString iv @ encrypted
      in (transitmessage, w2))"

text \<open>\<open>None\<close>: the decryption threw.\<close>

definition decrypt :: "env \<Rightarrow> string \<Rightarrow> string \<Rightarrow> string option" where
  "decrypt env transitMessage password =
     (let salt = Hex_parse env (take 32 transitMessage);
          iv = Hex_parse env (take 32 (drop 32 transitMessage));
          encrypted = drop 64 transitMessage;
          key = PBKDF2 env password salt (keySize div 32) iterations
      in AES_decrypt env encrypted key iv)"

text \<open>
  The body of the \<^verbatim>\<open>try\<close> of \<^verbatim>\<open>getStoredWallet\<close> and \<^verbatim>\<open>testPassword\<close>:
  \<^verbatim>\<open>JSON.parse(decrypt(storedWallet.wallet, password))\<close>, \<open>None\<close> when it throws.
  \<^verbatim>\<open>decrypt\<close> calls \<^verbatim>\<open>substr\<close> on its argument, a \<^verbatim>\<open>TypeError\<close> unless it is a text.
\<close>

definition try_decrypt :: "env \<Rightarrow> json \<Rightarrow> string \<Rightarrow> json option" where
  "try_decrypt env storedWallet password =
     (case member storedWallet ''wallet'' of
        Some (JStr transitMessage) \<Rightarrow>
          (case decrypt env transitMessage password of
             None \<Rightarrow> None
           | Some decrypted \<Rightarrow> JSON_parse env decrypted)
      | _ \<Rightarrow> None)"

definition getStoredWallet :: "env \<Rightarrow> string \<Rightarrow> string \<Rightarrow> world \<Rightarrow> json outcome" where
  "getStoredWallet env address password w =
     (case loadFromStorage env address w of
        (Inl e, w1) \<Rightarrow> (Inl e, w1)
      | (Inr storedWallet, w1) \<Rightarrow>
          if \<not> truthy storedWallet
          then (Inl (Error ''No wallet found for requested address''), w1)
          else (case try_decrypt env storedWallet password of
                  None \<Rightarrow> (Inl (Error ''Incorrect password''), w1)
                | Some wallet \<Rightarrow> (Inr wallet, w1)))"

definition testPassword :: "env \<Rightarrow> string \<Rightarrow> string \<Rightarrow> world \<Rightarrow> unit outcome" where
  "testPassword env address password w =
     (case loadFromStorage env address w of
        (Inl e, w1) \<Rightarrow> (Inl e, w1)
      | (Inr storedWallet, w1) \<Rightarrow>
          if \<not> truthy storedWallet
          then (Inl (Error ''No wallet found for request address''), w1)
          else (case try_decrypt env storedWallet password of
                  None \<Rightarrow> (Inl (Error ''Password for wallet is incorrect''), w1)
                | Some wallet \<Rightarrow> (Inr (), w1)))"

text \<open>
  \<^verbatim>\<open>storedIndex.find(({ name: storedName }) => name === storedName)\<close> on the elements
  of an array: the first element whose \<^verbatim>\<open>name\<close> is the text sought. The parameter
  pattern throws on \<^verbatim>\<open>null\<close>.
\<close>

fun find_name :: "string \<Rightarrow> json list \<Rightarrow> error + json option" where
  "find_name name [] = Inr None"
| "find_name name (x # xs) =
     (if x = JNull then Inl TypeError
      else if member x ''name'' = Some (JStr name) then Inr (Some x)
      else find_name name xs)"

text \<open>
  \<^verbatim>\<open>storedIndex.filter(({ address: storedAddress }) => storedAddress !== address)\<close>.
\<close>

fun filter_address :: "string \<Rightarrow> json list \<Rightarrow> error + json list" where
  "filter_address address [] = Inr []"
| "filter_address address (x # xs) =
     (if x = JNull then Inl TypeError
      else (case filter_address address xs of
              Inl e \<Rightarrow> Inl e
            | Inr ys \<Rightarrow>
                if member x ''address'' \<noteq> Some (JStr address) then Inr (x # ys) else Inr ys))"

definition addToIndex :: "env \<Rightarrow> string \<Rightarrow> string \<Rightarrow> world \<Rightarrow> unit outcome" where
  "addToIndex env name address w =
     (case getWalletIndex env w of
        (Inl e, w1) \<Rightarrow> (Inl e, w1)
      | (Inr storedIndex, w1) \<Rightarrow>
          (case storedIndex of
             JArr xs \<Rightarrow>
               (case find_name name xs of
                  Inl e \<Rightarrow> (Inl e, w1)
                | Inr (Some found) \<Rightarrow>
                    if truthy found then (Inl (Error ''Key with that name already exists''), w1)
                    else (Inr (), setItem (KEY_TAG @ ''-index'')
                            (JSON_stringify env (JArr (xs @ [IndexEntry_json (name, address)]))) w1)
                | Inr None \<Rightarrow>
                    (Inr (), setItem (KEY_TAG @ ''-index'')
                       (JSON_stringify env (JArr (xs @ [IndexEntry_json (name, address)]))) w1))
           | _ \<Rightarrow> (Inl TypeError, w1)))"

definition removeFromIndex :: "env \<Rightarrow> string \<Rightarrow> world \<Rightarrow> unit outcome" where
  "removeFromIndex env address w =
     (case getWalletIndex env w of
        (Inl e, w1) \<Rightarrow> (Inl e, w1)
      | (Inr storedIndex, w1) \<Rightarrow>
          (case storedIndex of
             JArr xs \<Rightarrow>
               (case filter_address address xs of
                  Inl e \<Rightarrow> (Inl e, w1)
                | Inr updatedIndex \<Rightarrow>
                    (Inr (), setItem (KEY_TAG @ ''-index'')
                       (JSON_stringify env (JArr updatedIndex)) w1))
           | _ \<Rightarrow> (Inl TypeError, w1)))"

definition addToStorage :: "env \<Rightarrow> string \<Rightarrow> string \<Rightarrow> string \<Rightarrow> world \<Rightarrow> unit outcome" where
  "addToStorage env name address ciphertext w =
     (case addToIndex env name address w of
        (Inl e, w1) \<Rightarrow> (Inl e, w1)
      | (Inr u, w1) \<Rightarrow>
          (Inr (), setItem (KEY_TAG @ ''-'' @ address)
             (JSON_stringify env (StoredWallet_json name address ciphertext)) w1))"

definition removeFromStorage :: "env \<Rightarrow> string \<Rightarrow> world \<Rightarrow> unit outcome" where
  "removeFromStorage env address w =
     (case removeFromIndex env address w of
        (Inl e, w1) \<Rightarrow> (Inl e, w1)
      | (Inr u, w1) \<Rightarrow> (Inr (), removeItem (KEY_TAG @ ''-'' @ address) w1))"

definition storeWallet :: "env \<Rightarrow> Wallet \<Rightarrow> string \<Rightarrow> string \<Rightarrow> world \<Rightarrow> unit outcome" where
  "storeWallet env wallet name password w =
     (case loadFromStorage env (cosmosAddress wallet) w of
        (Inl e, w1) \<Rightarrow> (Inl e, w1)
      | (Inr storedWallet, w1) \<Rightarrow>
          if truthy storedWallet
          then (Inl (Error ''The wallet was already stored. Can't store the same wallet again.''), w1)
          else (let (ciphertext, w2) = encrypt env (JSON_stringify env (Wallet_json wallet)) password w1
                in addToStorage env name (cosmosAddress wallet) ciphertext w2))"

definition removeWallet :: "env \<Rightarrow> string \<Rightarrow> string \<Rightarrow> world \<Rightarrow> unit outcome" where
  "removeWallet env address password w =
     (case loadFromStorage env address w of
        (Inl e, w1) \<Rightarrow> (Inl e, w1)
      | (Inr storedWallet, w1) \<Rightarrow>
          if \<not> truthy storedWallet
          then (Inl (Error ''No wallet found for requested address''), w1)
          else (case testPassword env address password w1 of
                  (Inl e, w2) \<Rightarrow> (Inl e, w2)
                | (Inr u, w2) \<Rightarrow> removeFromStorage env address w2))"

subsection \<open>What an encryption draws from the random source\<close>

text \<open>
  \<^verbatim>\<open>encrypt\<close> calls \<^verbatim>\<open>WordArray.random(128 / 8)\<close> twice, for the salt and then for
  the initialisation vector.
\<close>

definition drawn_salt :: "world \<Rightarrow> bytes" where
  "drawn_salt w = fst (WordArray_random (128 div 8) w)"

definition drawn_iv :: "world \<Rightarrow> bytes" where
  "drawn_iv w = fst (WordArray_random (128 div 8) (snd (WordArray_random (128 div 8) w)))"

section \<open>What the theorems assume of the library\<close>

text \<open>
  \<^verbatim>\<open>JSON.parse\<close> rejects the empty text, reads \<^verbatim>\<open>[]\<close> as the empty array, and reads
  back what \<^verbatim>\<open>JSON.stringify\<close> wrote for the three kinds of value this module writes:
  a wallet, a stored wallet and an index.
\<close>

definition JSON_faithful :: "env \<Rightarrow> bool" where
  "JSON_faithful env \<longleftrightarrow>
     JSON_parse env [] = None \<and>
     JSON_parse env ''[]'' = Some (JArr []) \<and>
     (\<forall>wallet. JSON_parse env (JSON_stringify env (Wallet_json wallet)) = Some (Wallet_json wallet)) \<and>
     (\<forall>n a c. JSON_parse env (JSON_stringify env (StoredWallet_json n a c)) = Some (StoredWallet_json n a c)) \<and>
     (\<forall>es. JSON_parse env (JSON_stringify env (JArr (map IndexEntry_json es)))
             = Some (JArr (map IndexEntry_json es)))"

definition Hex_faithful :: "env \<Rightarrow> bool" where
  "Hex_faithful env \<longleftrightarrow> (\<forall>bs. Hex_parse env (WordArray_toString bs) = bs)"

definition AES_faithful :: "env \<Rightarrow> bool" where
  "AES_faithful env \<longleftrightarrow>
     (\<forall>message key iv. AES_decrypt env (AES_encrypt env message key iv) key iv = Some message)"

section \<open>A small runtime for the examples\<close>

text \<open>
  A runtime that meets the assumptions, on which the examples below are evaluated.
  It writes JSON without white space and reads texts, arrays, objects and the three
  literals. Its key derivation pads the password with zero bytes to the length of the
  key, as the HMAC inside PBKDF2 pads a short key (RFC 2104), and mixes in the salt; its
  cipher writes key and vector in hex before the message and refuses to decrypt under
  another key or vector.
\<close>

fun escape :: "string \<Rightarrow> string" where
  "escape [] = []"
| "escape (c # cs) =
     (if c = CHR 0x22 \<or> c = CHR 0x5C then CHR 0x5C # c # escape cs else c # escape cs)"

definition show_string :: "string \<Rightarrow> string" where
  "show_string s = CHR 0x22 # escape s @ [CHR 0x22]"

fun commas :: "string list \<Rightarrow> string" where
  "commas [] = []"
| "commas [x] = x"
| "commas (x # y # ys) = x @ CHR '','' # commas (y # ys)"

fun digits :: "nat \<Rightarrow> string" where
  "digits n = (if n < 10 then [''0123456789'' ! n] else digits (n div 10) @ [''0123456789'' ! (n mod 10)])"

fun show_json :: "json \<Rightarrow> string" where
  "show_json JNull = ''null''"
| "show_json (JBool b) = (if b then ''true'' else ''false'')"
| "show_json (JNum n) = (if n < 0 then CHR ''-'' # digits (nat (- n)) else digits (nat n))"
| "show_json (JStr s) = show_string s"
| "show_json (JArr vs) = CHR ''['' # commas (map show_json vs) @ '']''"
| "show_json (JObj fs) =
     CHR ''{'' # commas (map (\<lambda>f. show_string (fst f) @ CHR '':'' # show_json (snd f)) fs) @ ''}''"

fun read_string :: "string \<Rightarrow> (string \<times> string) option" where
  "read_string [] = None"
| "read_string (c # cs) =
     (if c = CHR 0x22 then Some ([], cs)
      else if c = CHR 0x5C then
        (case cs of
           [] \<Rightarrow> None
         | d # ds \<Rightarrow> (case read_string ds of None \<Rightarrow> None | Some (s, r) \<Rightarrow> Some (d # s, r)))
      else (case read_string cs of None \<Rightarrow> None | Some (s, r) \<Rightarrow> Some (c # s, r)))"

fun read_value :: "nat \<Rightarrow> string \<Rightarrow> (json \<times> string) option"
  and read_items :: "nat \<Rightarrow> string \<Rightarrow> (json list \<times> string) option"
  and read_members :: "nat \<Rightarrow> string \<Rightarrow> ((string \<times> json) list \<times> string) option"
where
  "read_value 0 cs = None"
| "read_value (Suc n) cs =
     (case cs of
        [] \<Rightarrow> None
      | c # r \<Rightarrow>
          if c = CHR 0x22 then
            (case read_string r of None \<Rightarrow> None | Some (s, r') \<Rightarrow> Some (JStr s, r'))
          else if c = CHR ''['' then
            (if take 1 r = '']'' then Some (JArr [], drop 1 r)
             else (case read_items n r of None \<Rightarrow> None | Some (vs, r') \<Rightarrow> Some (JArr vs, r')))
          else if c = CHR ''{'' then
            (if take 1 r = ''}'' then Some (JObj [], drop 1 r)
             else (case read_members n r of None \<Rightarrow> None | Some (fs, r') \<Rightarrow> Some (JObj fs, r')))
          else if take 4 cs = ''null'' then Some (JNull, drop 4 cs)
          else if take 4 cs = ''true'' then Some (JBool True, drop 4 cs)
          else if take 5 cs = ''false'' then Some (JBool False, drop 5 cs)
          else None)"
| "read_items 0 cs = None"
| "read_items (Suc n) cs =
     (case read_value n cs of
        None \<Rightarrow> None
      | Some (v, r) \<Rightarrow>
          if take 1 r = '','' then
            (case read_items n (drop 1 r) of None \<Rightarrow> None | Some (vs, r') \<Rightarrow> Some (v # vs, r'))
          else if take 1 r = '']'' then Some ([v], drop 1 r)
          else None)"
| "read_members 0 cs = None"
| "read_members (Suc n) cs =
     (if take 1 cs = [CHR 0x22] then
        (case read_string (drop 1 cs) of
           None \<Rightarrow> None
         | Some (k, r) \<Rightarrow>
             if take 1 r = '':'' then
               (case read_value n (drop 1 r) of
                  None \<Rightarrow> None
                | Some (v, r') \<Rightarrow>
                    if take 1 r' = '','' then
                      (case read_members n (drop 1 r') of
                         None \<Rightarrow> None
                       | Some (fs, r'') \<Rightarrow> Some ((k, v) # fs, r''))
                    else if take 1 r' = ''}'' then Some ([(k, v)], drop 1 r')
                    else None)
             else None)
      else None)"

definition read_json :: "string \<Rightarrow> json option" where
  "read_json t = (case read_value (length t) t of Some (v, []) \<Rightarrow> Some v | _ \<Rightarrow> None)"

definition hex_value :: "char \<Rightarrow> 8 word" where
  "hex_value c = of_nat (length (takeWhile (\<lambda>d. d \<noteq> c) ''0123456789abcdef'')) AND 15"

fun hex_parse :: "string \<Rightarrow> bytes" where
  "hex_parse (a # b # cs) = (push_bit 4 (hex_value a) OR hex_value b) # hex_parse cs"
| "hex_parse cs = []"

definition sample_PBKDF2 :: "string \<Rightarrow> bytes \<Rightarrow> nat \<Rightarrow> nat \<Rightarrow> bytes" where
  "sample_PBKDF2 password salt words iters =
     map (\<lambda>i. (if i < length password then of_nat (of_char (password ! i)) else 0) XOR
               (if salt = [] then 0 else salt ! (i mod length salt)))
       [0..<4 * words]"

definition sample_encrypt :: "string \<Rightarrow> bytes \<Rightarrow> bytes \<Rightarrow> string" where
  "sample_encrypt message key iv = WordArray_toString key @ WordArray_toString iv @ message"

definition sample_decrypt :: "string \<Rightarrow> bytes \<Rightarrow> bytes \<Rightarrow> string option" where
  "sample_decrypt text key iv =
     (let tag = WordArray_toString key @ WordArray_toString iv in
      if take (length tag) text = tag then Some (drop (length tag) text) else None)"

definition sample_env :: env where
  "sample_env = \<lparr>JSON_parse = read_json, JSON_stringify = show_json, PBKDF2 = sample_PBKDF2,
     AES_encrypt = sample_encrypt, AES_decrypt = sample_decrypt, Hex_parse = hex_parse\<rparr>"

definition empty_world :: world where
  "empty_world = \<lparr>localStorage = Map.empty, entropy = (\<lambda>i. of_nat i)\<rparr>"

definition sample_wallet :: Wallet where
  "sample_wallet = \<lparr>cosmosAddress = ''cosmos1r5v5srda7xfth3hn2s26txvrcrntldjumt8mhl'',
     privateKey = ''8088c2ed2149c34f6d6533b774da4e1692eb5cb426fdbaef6898eeda489630b7'',
     publicKey = ''02ba66a84cf7839af172a13e7fc9f5e7008cb8bca1585f8f3bafb3039eda3c1fdd''\<rparr>"

text \<open>The store after one wallet was stored in the empty store under the password \<^verbatim>\<open>a\<close>.\<close>

definition stored_world :: world where
  "stored_world = snd (storeWallet sample_env sample_wallet ''main'' ''a'' empty_world)"

definition other_wallet :: Wallet where
  "other_wallet = \<lparr>cosmosAddress = ''cosmos1pt9904aqg739q6p9kgc2v0puqvj6atp0zsj70g'',
     privateKey = ''a9f1c24315bf0e366660a26c5819b69f242b5d7a293fc5a3dec8341372544be8'',
     publicKey = ''037a525043e79a9051d58214a9a2a70b657b3d49124dcd0acc4730df5f35d74b32''\<rparr>"

text \<open>The store after the sample wallet was removed again.\<close>

definition removed_world :: world where
  "removed_world =
     snd (removeWallet sample_env (cosmosAddress sample_wallet) ''a'' stored_world)"

text \<open>A store whose index names an address that has no wallet entry.\<close>

definition dangling_world :: world where
  "dangling_world = setItem (KEY_TAG @ ''-index'')
     (show_json (JArr [IndexEntry_json (''old'', cosmosAddress sample_wallet)])) empty_world"

section \<open>The store invariant\<close>

text \<open>
  What \<^verbatim>\<open>loadFromStorage\<close> reads under the key of an address, \<open>None\<close> when it finds
  no text.
\<close>

definition wallet_entry :: "env \<Rightarrow> world \<Rightarrow> string \<Rightarrow> json option" where
  "wallet_entry env w address =
     (case localStorage w (KEY_TAG @ ''-'' @ address) of
        None \<Rightarrow> None
      | Some t \<Rightarrow> if t = [] then None else JSON_parse env t)"

text \<open>
  The invariant as the specification has it: the index is a sequence of entries with
  unique names, the address of every stored wallet appears exactly once in it, and no
  two stored wallets have the same address.
\<close>

definition store_invariant :: "env \<Rightarrow> world \<Rightarrow> bool" where
  "store_invariant env w \<longleftrightarrow>
     (\<exists>es. fst (getWalletIndex env w) = Inr (JArr (map IndexEntry_json es))
        \<and> distinct (map fst es)
        \<and> (\<forall>k n a c. wallet_entry env w k = Some (StoredWallet_json n a c) \<longrightarrow>
               count_list (map snd es) a = 1)
        \<and> (\<forall>k k' n n' a c c'.
               wallet_entry env w k = Some (StoredWallet_json n a c)
               \<and> wallet_entry env w k' = Some (StoredWallet_json n' a c') \<longrightarrow> k = k'))"

text \<open>
  The invariant the operations keep: moreover no address appears twice in the index, and
  the wallet keys that hold a text are exactly the keys of the addresses in the index,
  each holding the stored wallet of its index entry.
\<close>

definition store_consistent :: "env \<Rightarrow> world \<Rightarrow> bool" where
  "store_consistent env w \<longleftrightarrow>
     (\<exists>es. fst (getWalletIndex env w) = Inr (JArr (map IndexEntry_json es))
        \<and> distinct (map fst es)
        \<and> distinct (map snd es)
        \<and> (\<forall>a. a \<noteq> ''index'' \<longrightarrow>
               (localStorage w (KEY_TAG @ ''-'' @ a) \<noteq> None) = (a \<in> snd ` set es))
        \<and> (\<forall>e \<in> set es. \<exists>c. wallet_entry env w (snd e) = Some (StoredWallet_json (fst e) (snd e) c)))"

section \<open>The address encoder\<close>

text \<open>
  \<^verbatim>\<open>src/cosmos-keys.ts\<close> is not among the sources; only its test is. The address
  encoder is modelled from section 4.3 of the specification, which names the two digests
  and describes the encoding; their constants are those of the standards (FIPS 180-4,
  RIPEMD-160, Bech32). A 32-bit word is a natural number, with the wrap-around written
  out, and a byte inside the digests a natural number below 256.
\<close>

text \<open>Modelled from the spec: 32-bit words are natural numbers below \<open>2 ^ 32\<close>; this is their addition.\<close>

definition add32 :: "nat \<Rightarrow> nat \<Rightarrow> nat" where
  "add32 x y = (x + y) mod 2 ^ 32"


text \<open>Modelled from the spec: the complement of a 32-bit word.\<close>

definition not32 :: "nat \<Rightarrow> nat" where
  "not32 x = 2 ^ 32 - 1 - x mod 2 ^ 32"


text \<open>Modelled from the spec: rotation of a 32-bit word to the right.\<close>

definition rotr32 :: "nat \<Rightarrow> nat \<Rightarrow> nat" where
  "rotr32 n x = x div 2 ^ n + (x mod 2 ^ n) * 2 ^ (32 - n)"


text \<open>Modelled from the spec: rotation of a 32-bit word to the left.\<close>

definition rotl32 :: "nat \<Rightarrow> nat \<Rightarrow> nat" where
  "rotl32 n x = (x mod 2 ^ (32 - n)) * 2 ^ n + x div 2 ^ (32 - n)"


text \<open>Modelled from the spec: a list cut into pieces of \<open>n\<close> elements, the last one shorter if need be.\<close>

function chunks :: "nat \<Rightarrow> 'a list \<Rightarrow> 'a list list" where
  "chunks n xs = (if n = 0 \<or> xs = [] then [] else take n xs # chunks n (drop n xs))"
  by pat_completeness auto
termination
  by (relation "measure (\<lambda>(n, xs). length xs)") auto


text \<open>Modelled from the spec: the word of four bytes, the most significant first.\<close>

definition be32 :: "nat list \<Rightarrow> nat" where
  "be32 bs = foldl (\<lambda>acc b. acc * 256 + b) 0 bs"


text \<open>Modelled from the spec: the four bytes of a word, the most significant first.\<close>

definition be_bytes4 :: "nat \<Rightarrow> nat list" where
  "be_bytes4 x = map (\<lambda>s. x div 2 ^ s mod 256) [24, 16, 8, 0]"


text \<open>Modelled from the spec: the eight bytes of a length, the most significant first.\<close>

definition be_bytes8 :: "nat \<Rightarrow> nat list" where
  "be_bytes8 x = map (\<lambda>s. x div 2 ^ s mod 256) [56, 48, 40, 32, 24, 16, 8, 0]"


text \<open>Modelled from the spec: the padding both digests use: a one bit, zeros up to 56 bytes modulo 64, then the length of the message in bits.\<close>

definition md_pad :: "(nat \<Rightarrow> nat list) \<Rightarrow> nat list \<Rightarrow> nat list" where
  "md_pad len m = m @ [0x80] @ replicate ((119 - length m mod 64) mod 64) 0 @ len (8 * length m)"


text \<open>Modelled from the spec: the round constants of SHA-256 (FIPS 180-4).\<close>

definition K256 :: "nat list" where
  "K256 =
    [0x428A2F98, 0x71374491, 0xB5C0FBCF, 0xE9B5DBA5, 0x3956C25B, 0x59F111F1, 0x923F82A4, 0xAB1C5ED5,
     0xD807AA98, 0x12835B01, 0x243185BE, 0x550C7DC3, 0x72BE5D74, 0x80DEB1FE, 0x9BDC06A7, 0xC19BF174,
     0xE49B69C1, 0xEFBE4786, 0x0FC19DC6, 0x240CA1CC, 0x2DE92C6F, 0x4A7484AA, 0x5CB0A9DC, 0x76F988DA,
     0x983E5152, 0xA831C66D, 0xB00327C8, 0xBF597FC7, 0xC6E00BF3, 0xD5A79147, 0x06CA6351, 0x14292967,
     0x27B70A85, 0x2E1B2138, 0x4D2C6DFC, 0x53380D13, 0x650A7354, 0x766A0ABB, 0x81C2C92E, 0x92722C85,
     0xA2BFE8A1, 0xA81A664B, 0xC24B8B70, 0xC76C51A3, 0xD192E819, 0xD6990624, 0xF40E3585, 0x106AA070,
     0x19A4C116, 0x1E376C08, 0x2748774C, 0x34B0BCB5, 0x391C0CB3, 0x4ED8AA4A, 0x5B9CCA4F, 0x682E6FF3,
     0x748F82EE, 0x78A5636F, 0x84C87814, 0x8CC70208, 0x90BEFFFA, 0xA4506CEB, 0xBEF9A3F7, 0xC67178F2]"


text \<open>Modelled from the spec: the initial hash value of SHA-256.\<close>

definition H256 :: "nat list" where
  "H256 = [0x6A09E667, 0xBB67AE85, 0x3C6EF372, 0xA54FF53A, 0x510E527F, 0x9B05688C, 0x1F83D9AB, 0x5BE0CD19]"


text \<open>Modelled from the spec: the function \<open>\<sigma>0\<close> of the message schedule of SHA-256.\<close>

definition ssig0 :: "nat \<Rightarrow> nat" where
  "ssig0 x = rotr32 7 x XOR rotr32 18 x XOR x div 2 ^ 3"


text \<open>Modelled from the spec: the function \<open>\<sigma>1\<close> of the message schedule of SHA-256.\<close>

definition ssig1 :: "nat \<Rightarrow> nat" where
  "ssig1 x = rotr32 17 x XOR rotr32 19 x XOR x div 2 ^ 10"


text \<open>Modelled from the spec: the function \<open>\<Sigma>0\<close> of SHA-256.\<close>

definition bsig0 :: "nat \<Rightarrow> nat" where
  "bsig0 x = rotr32 2 x XOR rotr32 13 x XOR rotr32 22 x"


text \<open>Modelled from the spec: the function \<open>\<Sigma>1\<close> of SHA-256.\<close>

definition bsig1 :: "nat \<Rightarrow> nat" where
  "bsig1 x = rotr32 6 x XOR rotr32 11 x XOR rotr32 25 x"


text \<open>Modelled from the spec: the choice function of SHA-256.\<close>

definition sha256_ch :: "nat \<Rightarrow> nat \<Rightarrow> nat \<Rightarrow> nat" where
  "sha256_ch x y z = (x AND y) XOR (not32 x AND z)"


text \<open>Modelled from the spec: the majority function of SHA-256.\<close>

definition sha256_maj :: "nat \<Rightarrow> nat \<Rightarrow> nat \<Rightarrow> nat" where
  "sha256_maj x y z = (x AND y) XOR (x AND z) XOR (y AND z)"


text \<open>Modelled from the spec: the next word of the message schedule, appended to the words so far.\<close>

definition sha256_next :: "nat list \<Rightarrow> nat \<Rightarrow> nat list" where
  "sha256_next w t =
     w @ [add32 (add32 (add32 (ssig1 (w ! (t - 2))) (w ! (t - 7))) (ssig0 (w ! (t - 15)))) (w ! (t - 16))]"


text \<open>Modelled from the spec: the 64 words of the message schedule of a block of 16 words.\<close>

definition sha256_schedule :: "nat list \<Rightarrow> nat list" where
  "sha256_schedule ws = foldl sha256_next ws [16..<64]"


text \<open>Modelled from the spec: the eight working variables after a round, from its two temporaries.\<close>

fun sha256_shift :: "nat \<Rightarrow> nat \<Rightarrow> nat list \<Rightarrow> nat list" where
  "sha256_shift t1 t2 [a, b, c, d, e, f, g, h] = [add32 t1 t2, a, b, c, add32 d t1, e, f, g]"
| "sha256_shift t1 t2 st = st"


text \<open>Modelled from the spec: one round of SHA-256 on the working variables, with its constant and schedule word.\<close>

fun sha256_round :: "nat list \<Rightarrow> nat \<times> nat \<Rightarrow> nat list" where
  "sha256_round [a, b, c, d, e, f, g, h] (k, w) =
     sha256_shift (add32 (add32 (add32 (add32 h (bsig1 e)) (sha256_ch e f g)) k) w) (add32 (bsig0 a) (sha256_maj a b c))
       [a, b, c, d, e, f, g, h]"
| "sha256_round st kw = st"


text \<open>Modelled from the spec: the compression of one 64-byte block into the hash value.\<close>

definition sha256_compress :: "nat list \<Rightarrow> nat list \<Rightarrow> nat list" where
  "sha256_compress hs block =
     map2 add32 hs (foldl sha256_round hs (zip K256 (sha256_schedule (map be32 (chunks 4 block)))))"


text \<open>Modelled from the spec: the first digest of section 4.3, SHA-256, from bytes to 32 bytes.\<close>

definition sha256 :: "nat list \<Rightarrow> nat list" where
  "sha256 m = concat (map be_bytes4 (foldl sha256_compress H256 (chunks 64 (md_pad be_bytes8 m))))"


text \<open>Modelled from the spec: the word of four bytes, the least significant first.\<close>

definition le32 :: "nat list \<Rightarrow> nat" where
  "le32 bs = foldr (\<lambda>b acc. acc * 256 + b) bs 0"


text \<open>Modelled from the spec: the four bytes of a word, the least significant first.\<close>

definition le_bytes4 :: "nat \<Rightarrow> nat list" where
  "le_bytes4 x = rev (be_bytes4 x)"


text \<open>Modelled from the spec: the eight bytes of a length, the least significant first.\<close>

definition le_bytes8 :: "nat \<Rightarrow> nat list" where
  "le_bytes8 x = rev (be_bytes8 x)"


text \<open>Modelled from the spec: the five boolean functions of RIPEMD-160, by step number.\<close>

definition rmd_f :: "nat \<Rightarrow> nat \<Rightarrow> nat \<Rightarrow> nat \<Rightarrow> nat" where
  "rmd_f j x y z =
     (if j < 16 then x XOR y XOR z
      else if j < 32 then (x AND y) OR (not32 x AND z)
      else if j < 48 then (x OR not32 y) XOR z
      else if j < 64 then (x AND z) OR (y AND not32 z)
      else x XOR (y OR not32 z))"


text \<open>Modelled from the spec: the constants of the left line of RIPEMD-160, one per round of 16 steps.\<close>

definition rmd_KL :: "nat list" where
  "rmd_KL = [0x00000000, 0x5A827999, 0x6ED9EBA1, 0x8F1BBCDC, 0xA953FD4E]"


text \<open>Modelled from the spec: the constants of the right line of RIPEMD-160.\<close>

definition rmd_KR :: "nat list" where
  "rmd_KR = [0x50A28BE6, 0x5C4DD124, 0x6D703EF3, 0x7A6D76E9, 0x00000000]"


text \<open>Modelled from the spec: the order of the message words in the left line of RIPEMD-160.\<close>

definition rmd_RL :: "nat list" where
  "rmd_RL =
     [0, 1, 2, 3, 4, 5, 6, 7, 8, 9, 10, 11, 12, 13, 14, 15] @
     [7, 4, 13, 1, 10, 6, 15, 3, 12, 0, 9, 5, 2, 14, 11, 8] @
     [3, 10, 14, 4, 9, 15, 8, 1, 2, 7, 0, 6, 13, 11, 5, 12] @
     [1, 9, 11, 10, 0, 8, 12, 4, 13, 3, 7, 15, 14, 5, 6, 2] @
     [4, 0, 5, 9, 7, 12, 2, 10, 14, 1, 3, 8, 11, 6, 15, 13]"


text \<open>Modelled from the spec: the order of the message words in the right line of RIPEMD-160.\<close>

definition rmd_RR :: "nat list" where
  "rmd_RR =
     [5, 14, 7, 0, 9, 2, 11, 4, 13, 6, 15, 8, 1, 10, 3, 12] @
     [6, 11, 3, 7, 0, 13, 5, 10, 14, 15, 8, 12, 4, 9, 1, 2] @
     [15, 5, 1, 3, 7, 14, 6, 9, 11, 8, 12, 2, 10, 0, 4, 13] @
     [8, 6, 4, 1, 3, 11, 15, 0, 5, 12, 2, 13, 9, 7, 10, 14] @
     [12, 15, 10, 4, 1, 5, 8, 7, 6, 2, 13, 14, 0, 3, 9, 11]"


text \<open>Modelled from the spec: the rotation amounts of the left line of RIPEMD-160.\<close>

definition rmd_SL :: "nat list" where
  "rmd_SL =
     [11, 14, 15, 12, 5, 8, 7, 9, 11, 13, 14, 15, 6, 7, 9, 8] @
     [7, 6, 8, 13, 11, 9, 7, 15, 7, 12, 15, 9, 11, 7, 13, 12] @
     [11, 13, 6, 7, 14, 9, 13, 15, 14, 8, 13, 6, 5, 12, 7, 5] @
     [11, 12, 14, 15, 14, 15, 9, 8, 9, 14, 5, 6, 8, 6, 5, 12] @
     [9, 15, 5, 11, 6, 8, 13, 12, 5, 12, 13, 14, 11, 8, 5, 6]"


text \<open>Modelled from the spec: the rotation amounts of the right line of RIPEMD-160.\<close>

definition rmd_SR :: "nat list" where
  "rmd_SR =
     [8, 9, 9, 11, 13, 15, 15, 5, 7, 7, 8, 11, 14, 14, 12, 6] @
     [9, 13, 15, 7, 12, 8, 9, 11, 7, 7, 12, 7, 6, 15, 13, 11] @
     [9, 7, 15, 11, 8, 6, 6, 14, 12, 13, 5, 14, 13, 13, 7, 5] @
     [15, 5, 8, 11, 14, 14, 6, 14, 6, 9, 12, 9, 12, 5, 15, 8] @
     [8, 5, 12, 9, 12, 5, 14, 6, 8, 13, 6, 5, 15, 13, 11, 11]"


text \<open>Modelled from the spec: the initial hash value of RIPEMD-160.\<close>

definition rmd_H :: "nat list" where
  "rmd_H = [0x67452301, 0xEFCDAB89, 0x98BADCFE, 0x10325476, 0xC3D2E1F0]"


text \<open>Modelled from the spec: one step of a line of RIPEMD-160 on its five working variables.\<close>

fun rmd_step :: "nat list \<Rightarrow> nat \<Rightarrow> nat \<Rightarrow> nat \<Rightarrow> nat \<Rightarrow> nat list" where
  "rmd_step [a, b, c, d, e] fv k x s =
     [e, add32 (rotl32 s (add32 (add32 (add32 a fv) x) k)) e, b, rotl32 10 c, d]"
| "rmd_step st fv k x s = st"


text \<open>Modelled from the spec: step \<open>j\<close> of the left line on the message words \<open>X\<close>.\<close>

fun rmd_left :: "nat list \<Rightarrow> nat list \<Rightarrow> nat \<Rightarrow> nat list" where
  "rmd_left X [a, b, c, d, e] j =
     rmd_step [a, b, c, d, e] (rmd_f j b c d) (rmd_KL ! (j div 16)) (X ! (rmd_RL ! j)) (rmd_SL ! j)"
| "rmd_left X st j = st"


text \<open>Modelled from the spec: step \<open>j\<close> of the right line on the message words \<open>X\<close>.\<close>

fun rmd_right :: "nat list \<Rightarrow> nat list \<Rightarrow> nat \<Rightarrow> nat list" where
  "rmd_right X [a, b, c, d, e] j =
     rmd_step [a, b, c, d, e] (rmd_f (79 - j) b c d) (rmd_KR ! (j div 16)) (X ! (rmd_RR ! j)) (rmd_SR ! j)"
| "rmd_right X st j = st"


text \<open>Modelled from the spec: the new hash value from the old one and the results of the two lines.\<close>

fun rmd_combine :: "nat list \<Rightarrow> nat list \<Rightarrow> nat list \<Rightarrow> nat list" where
  "rmd_combine [h0, h1, h2, h3, h4] [al, bl, cl, dl, el] [ar, br, cr, dr, er] =
     [add32 (add32 h1 cl) dr, add32 (add32 h2 dl) er, add32 (add32 h3 el) ar,
      add32 (add32 h4 al) br, add32 (add32 h0 bl) cr]"
| "rmd_combine h l r = []"


text \<open>Modelled from the spec: the two lines of 80 steps on one block of 16 words.\<close>

definition rmd_lines :: "nat list \<Rightarrow> nat list \<Rightarrow> nat list" where
  "rmd_lines h X = rmd_combine h (foldl (rmd_left X) h [0..<80]) (foldl (rmd_right X) h [0..<80])"


text \<open>Modelled from the spec: the compression of one 64-byte block by RIPEMD-160.\<close>

definition rmd_compress :: "nat list \<Rightarrow> nat list \<Rightarrow> nat list" where
  "rmd_compress h block = rmd_lines h (map le32 (chunks 4 block))"


text \<open>Modelled from the spec: the second digest of section 4.3, RIPEMD-160, from bytes to the 20-byte identifier.\<close>

definition ripemd160 :: "nat list \<Rightarrow> nat list" where
  "ripemd160 m = concat (map le_bytes4 (foldl rmd_compress rmd_H (chunks 64 (md_pad le_bytes8 m))))"


text \<open>Modelled from the spec: the fixed alphabet of 32 characters of the address encoding (Bech32).\<close>

definition bech32_CHARSET :: string where
  "bech32_CHARSET = ''qpzry9x8gf2tvdw0s3jn54khce6mua7l''"


text \<open>Modelled from the spec: the constants of the checksum polynomial (Bech32).\<close>

definition bech32_GEN :: "nat list" where
  "bech32_GEN = [0x3B6A57B2, 0x26508E6D, 0x1EA119FA, 0x3D4233DD, 0x2A1462B3]"


text \<open>Modelled from the spec: one of the five conditional additions of a generator constant.\<close>

definition polymod_mix :: "nat \<Rightarrow> nat \<Rightarrow> nat \<Rightarrow> nat" where
  "polymod_mix b c i = (if odd (b div 2 ^ i) then c XOR bech32_GEN ! i else c)"


text \<open>Modelled from the spec: the checksum after one more 5-bit value.\<close>

definition polymod_step :: "nat \<Rightarrow> nat \<Rightarrow> nat" where
  "polymod_step chk v = foldl (polymod_mix (chk div 2 ^ 25)) ((chk mod 2 ^ 25) * 32 XOR v) [0, 1, 2, 3, 4]"


text \<open>Modelled from the spec: the polynomial checksum over a sequence of 5-bit values.\<close>

definition bech32_polymod :: "nat list \<Rightarrow> nat" where
  "bech32_polymod values = foldl polymod_step 1 values"


text \<open>Modelled from the spec: the prefix as checksum input: the high bits of its characters, a zero, their low bits.\<close>

definition bech32_hrp_expand :: "string \<Rightarrow> nat list" where
  "bech32_hrp_expand hrp = map (\<lambda>c. of_char c div 32) hrp @ [0] @ map (\<lambda>c. of_char c mod 32) hrp"


text \<open>Modelled from the spec: the six 5-bit digits of a checksum.\<close>

definition checksum_digits :: "nat \<Rightarrow> nat list" where
  "checksum_digits pm = map (\<lambda>s. pm div 2 ^ s mod 32) [25, 20, 15, 10, 5, 0]"


text \<open>Modelled from the spec: the 6-character checksum over the prefix and the data groups.\<close>

definition bech32_checksum :: "string \<Rightarrow> nat list \<Rightarrow> nat list" where
  "bech32_checksum hrp data =
     checksum_digits (bech32_polymod (bech32_hrp_expand hrp @ data @ [0, 0, 0, 0, 0, 0]) XOR 1)"


text \<open>Modelled from the spec: the encoded text: prefix, separator, data groups and checksum in the alphabet.\<close>

definition bech32_encode :: "string \<Rightarrow> nat list \<Rightarrow> string" where
  "bech32_encode hrp data = hrp @ ''1'' @ map (\<lambda>d. bech32_CHARSET ! d) (data @ bech32_checksum hrp data)"


text \<open>Modelled from the spec: the eight bits of a byte, the most significant first.\<close>

definition bits8 :: "nat \<Rightarrow> bool list" where
  "bits8 b = map (\<lambda>s. odd (b div 2 ^ s)) [7, 6, 5, 4, 3, 2, 1, 0]"


text \<open>Modelled from the spec: the value of a group of five bits, a short last group padded with zeros.\<close>

definition group_value :: "bool list \<Rightarrow> nat" where
  "group_value g = foldl (\<lambda>a b. 2 * a + (if b then 1 else 0)) 0 (take 5 (g @ [False, False, False, False]))"


text \<open>Modelled from the spec: the bytes repacked from 8-bit to 5-bit groups.\<close>

definition toWords :: "nat list \<Rightarrow> nat list" where
  "toWords bs = map group_value (chunks 5 (concat (map bits8 bs)))"


text \<open>Modelled from the spec: \<^verbatim>\<open>getCosmosAddress\<close> of \<^verbatim>\<open>src/cosmos-keys.ts\<close>, the address encoder of section 4.3: SHA-256, then RIPEMD-160, then the checksummed base-32 text with the prefix \<^verbatim>\<open>cosmos\<close>.\<close>

definition getCosmosAddress :: "bytes \<Rightarrow> string" where
  "getCosmosAddress pubkey = bech32_encode ''cosmos'' (toWords (ripemd160 (sha256 (map unat pubkey))))"


section \<open>Encryption and decryption\<close>

lemma length_WordArray_toString: "length (WordArray_toString bs) = 2 * length bs"
  by (induction bs) (simp_all add: WordArray_toString_def)

lemma hex_digit_in: "hex_digit n \<in> set ''0123456789abcdef''"
proof -
  have "unat (n AND 15) \<le> unat (15 :: 8 word)"
    by (rule word_and_le1 [THEN word_le_nat_alt [THEN iffD1]])
  then have "unat (n AND 15) < length ''0123456789abcdef''" by simp
  then show ?thesis unfolding hex_digit_def by (rule nth_mem)
qed

lemma set_WordArray_toString: "set (WordArray_toString bs) \<subseteq> set ''0123456789abcdef''"
  unfolding WordArray_toString_def using hex_digit_in by (induction bs) auto

lemma encrypt_eq:
  "fst (encrypt env message password w) =
     WordArray_toString (drawn_salt w) @ WordArray_toString (drawn_iv w) @
        AES_encrypt env message (PBKDF2 env password (drawn_salt w) 8 100) (drawn_iv w)"
  by (simp add: encrypt_def drawn_salt_def drawn_iv_def keySize_def iterations_def Let_def split_beta)

lemma localStorage_encrypt: "localStorage (snd (encrypt env message password w)) = localStorage w"
  by (simp add: encrypt_def WordArray_random_def Let_def split_beta)

lemma length_drawn: "length (drawn_salt w) = 16" "length (drawn_iv w) = 16"
  by (simp_all add: drawn_salt_def drawn_iv_def WordArray_random_def)

lemma decrypt_eq:
  "decrypt env t password =
     AES_decrypt env (drop 64 t) (PBKDF2 env password (Hex_parse env (take 32 t)) 8 100)
       (Hex_parse env (take 32 (drop 32 t)))"
  by (simp add: decrypt_def keySize_def iterations_def Let_def)

section \<open>The sample runtime meets the assumptions\<close>

lemma read_string_escape [simp]: "read_string (escape s @ CHR 0x22 # rest) = Some (s, rest)"
  by (induction s) simp_all

lemma read_value_string [simp]:
  "read_value (Suc n) (CHR 0x22 # escape s @ CHR 0x22 # rest) = Some (JStr s, rest)"
  by simp

lemma length_commas: "\<forall>x \<in> set xs. x \<noteq> [] \<Longrightarrow> length xs \<le> length (commas xs)"
  by (induction xs rule: commas.induct) (auto simp: Suc_le_eq)

lemma read_Wallet: "read_json (show_json (Wallet_json wallet)) = Some (Wallet_json wallet)"
  by (simp add: read_json_def Wallet_json_def show_string_def)


lemma read_StoredWallet:
  "read_json (show_json (StoredWallet_json n a c)) = Some (StoredWallet_json n a c)"
  by (simp add: read_json_def StoredWallet_json_def show_string_def)

lemma read_value_IndexEntry:
  "read_value (Suc (Suc (Suc (Suc n)))) (show_json (IndexEntry_json e) @ rest) = Some (IndexEntry_json e, rest)"
  by (simp add: IndexEntry_json_def show_string_def)

lemma read_items_last:
  "read_value n cs = Some (v, CHR '']'' # rest) \<Longrightarrow> read_items (Suc n) cs = Some ([v], rest)"
  by simp

lemma read_items_more:
  "read_value n cs = Some (v, CHR '','' # r) \<Longrightarrow> read_items n r = Some (vs, rest) \<Longrightarrow>
   read_items (Suc n) cs = Some (v # vs, rest)"
  by simp

lemma read_items_IndexEntries:
  "es \<noteq> [] \<Longrightarrow>
   read_items (Suc (Suc (Suc (Suc (length es + n)))))
      (commas (map show_json (map IndexEntry_json es)) @ CHR '']'' # rest)
     = Some (map IndexEntry_json es, rest)"
proof (induction es)
  case Nil
  then show ?case by simp
next
  case (Cons e es)
  show ?case
  proof (cases es)
    case Nil
    have "read_items (Suc (Suc (Suc (Suc (Suc n))))) (show_json (IndexEntry_json e) @ CHR '']'' # rest)
            = Some ([IndexEntry_json e], rest)"
      by (rule read_items_last) (rule read_value_IndexEntry)
    then show ?thesis using Nil by simp
  next
    case (Cons e' es')
    let ?more = "commas (map show_json (map IndexEntry_json es)) @ CHR '']'' # rest"
    have more: "read_items (Suc (Suc (Suc (Suc (length es + n))))) ?more = Some (map IndexEntry_json es, rest)"
      using Cons.IH Cons by simp
    have "read_items (Suc (Suc (Suc (Suc (Suc (length es + n))))))
            (show_json (IndexEntry_json e) @ CHR '','' # ?more)
          = Some (IndexEntry_json e # map IndexEntry_json es, rest)"
      by (rule read_items_more [OF read_value_IndexEntry more])
    then show ?thesis using Cons by simp
  qed
qed

lemma show_json_nonempty: "show_json v \<noteq> []"
  by (cases v) (auto simp: show_string_def)

lemma length_show_IndexEntry: "4 \<le> length (show_json (IndexEntry_json e))"
  by (simp add: IndexEntry_json_def show_string_def)

lemma read_Index:
  "read_json (show_json (JArr (map IndexEntry_json es))) = Some (JArr (map IndexEntry_json es))"
proof (cases es)
  case Nil
  then show ?thesis by (simp add: read_json_def)
next
  case (Cons e es')
  let ?body = "commas (map show_json (map IndexEntry_json es))"
  have len: "length es + 3 \<le> length ?body"
  proof -
    have "length es' \<le> length (commas (map show_json (map IndexEntry_json es')))"
      using length_commas [of "map show_json (map IndexEntry_json es')"] show_json_nonempty by auto
    then show ?thesis using Cons length_show_IndexEntry [of e]
      by (cases es') auto
  qed
  obtain n where n: "length ?body = length es + 3 + n"
    using len le_Suc_ex by blast
  have "?body \<noteq> []" using len by auto
  then have notclose: "take 1 (?body @ '']'') \<noteq> '']''"
    using Cons by (cases es') (auto simp: IndexEntry_json_def show_string_def)
  have "read_items (Suc (Suc (Suc (Suc (length es + n))))) (?body @ CHR '']'' # []) = Some (map IndexEntry_json es, [])"
    using read_items_IndexEntries [of es n "[]"] Cons by simp
  moreover have "length (show_json (JArr (map IndexEntry_json es))) = Suc (Suc (Suc (Suc (Suc (length es + n)))))"
    using n by simp
  ultimately show ?thesis using notclose
    by (simp add: read_json_def del: read_items.simps)
qed


lemma hex_value_nth:
  "k < 16 \<Longrightarrow> hex_value (''0123456789abcdef'' ! k) = of_nat k"
proof -
  assume "k < 16"
  then have "k = 0 \<or> k = 1 \<or> k = 2 \<or> k = 3 \<or> k = 4 \<or> k = 5 \<or> k = 6 \<or> k = 7 \<or> k = 8
      \<or> k = 9 \<or> k = 10 \<or> k = 11 \<or> k = 12 \<or> k = 13 \<or> k = 14 \<or> k = 15"
    by arith
  then show ?thesis by (auto simp: hex_value_def)
qed

lemma hex_value_digit: "hex_value (hex_digit n) = n AND 15"
proof -
  have "unat (n AND 15) \<le> unat (15 :: 8 word)"
    by (rule word_and_le1 [THEN word_le_nat_alt [THEN iffD1]])
  then have "unat (n AND 15) < 16" by simp
  then show ?thesis unfolding hex_digit_def by (simp add: hex_value_nth)
qed

lemma and_15: "(b :: 8 word) AND 15 = take_bit 4 b"
  by (simp add: take_bit_eq_mask mask_eq_exp_minus_1)

lemma nibbles: "push_bit 4 (take_bit 4 (drop_bit 4 b)) OR take_bit 4 b = (b :: 8 word)"
proof (rule bit_eqI)
  fix n
  assume "possible_bit TYPE(8 word) n"
  then have "n < 8" by simp
  then show "bit (push_bit 4 (take_bit 4 (drop_bit 4 b)) OR take_bit 4 b) n = bit b n"
    by (auto simp: bit_simps)
qed

lemma hex_parse_byte:
  "push_bit 4 (hex_value (hex_digit (drop_bit 4 b))) OR hex_value (hex_digit b) = b"
  unfolding hex_value_digit and_15 by (rule nibbles)

lemma hex_parse_toString: "hex_parse (WordArray_toString bs) = bs"
proof (induction bs)
  case Nil
  then show ?case by (simp add: WordArray_toString_def)
next
  case (Cons b bs)
  have "WordArray_toString (b # bs) = hex_digit (drop_bit 4 b) # hex_digit b # WordArray_toString bs"
    by (simp add: WordArray_toString_def)
  then show ?case using Cons.IH by (simp only: hex_parse.simps hex_parse_byte)
qed


lemma sample_env_JSON: "JSON_faithful sample_env"
proof -
  have 1: "read_json [] = None" by (simp add: read_json_def)
  have 2: "read_json ''[]'' = Some (JArr [])" by (simp add: read_json_def)
  show ?thesis unfolding JSON_faithful_def
    by (simp only: sample_env_def env.select_convs 1 2 read_Wallet read_StoredWallet read_Index simp_thms)
qed

lemma sample_env_Hex: "Hex_faithful sample_env"
  by (simp add: Hex_faithful_def sample_env_def hex_parse_toString)

lemma sample_env_AES: "AES_faithful sample_env"
  by (simp add: AES_faithful_def sample_env_def sample_encrypt_def sample_decrypt_def)

lemma snd_getWalletIndex: "snd (getWalletIndex env w) = w"
  by (simp add: getWalletIndex_def getItem_def split: option.splits)

lemma snd_loadFromStorage: "snd (loadFromStorage env a w) = w"
  by (simp add: loadFromStorage_def getItem_def split: option.splits)

section \<open>The operations, step by step\<close>

lemma decrypt_encrypt:
  assumes "Hex_faithful env" and "AES_faithful env"
  shows "decrypt env (fst (encrypt env message password w)) password = Some message"
  using assms
  by (simp add: decrypt_eq encrypt_eq length_WordArray_toString length_drawn
      Hex_faithful_def AES_faithful_def)


lemma storeWallet_InrD:
  assumes "storeWallet env wallet name password w = (Inr u, w')"
  shows "\<exists>w3. w' = setItem (KEY_TAG @ ''-'' @ cosmosAddress wallet)
            (JSON_stringify env (StoredWallet_json name (cosmosAddress wallet)
               (fst (encrypt env (JSON_stringify env (Wallet_json wallet)) password w)))) w3"
  using assms
  by (auto simp: storeWallet_def addToStorage_def split_beta Let_def
      dest: arg_cong [where f = snd] simp: snd_loadFromStorage
      split: prod.splits sum.splits if_splits)

lemma loadFromStorage_setItem:
  assumes "JSON_parse env t = Some v" and "JSON_parse env [] = None"
  shows "loadFromStorage env a (setItem (KEY_TAG @ ''-'' @ a) t w)
           = (Inr v, setItem (KEY_TAG @ ''-'' @ a) t w)"
  using assms by (auto simp: loadFromStorage_def getItem_def setItem_def)

lemma fst_getWalletIndex_cong:
  "localStorage w' = localStorage w \<Longrightarrow> fst (getWalletIndex env w') = fst (getWalletIndex env w)"
  by (simp add: getWalletIndex_def getItem_def split: option.splits)

lemma fst_loadFromStorage_cong:
  "localStorage w' = localStorage w \<Longrightarrow> fst (loadFromStorage env a w') = fst (loadFromStorage env a w)"
  by (simp add: loadFromStorage_def getItem_def split: option.splits)

lemma getWalletIndex_pair: "getWalletIndex env w = (fst (getWalletIndex env w), w)"
  by (simp add: prod_eq_iff snd_getWalletIndex)

lemma loadFromStorage_pair: "loadFromStorage env a w = (fst (loadFromStorage env a w), w)"
  by (simp add: prod_eq_iff snd_loadFromStorage)

lemma find_name_truthy: "find_name name xs = Inr (Some x) \<Longrightarrow> truthy x"
proof (induction xs)
  case Nil
  then show ?case by simp
next
  case (Cons y ys)
  then show ?case by (cases y) (auto split: if_splits)
qed

lemma addToIndex_fresh:
  assumes "fst (getWalletIndex env w) = Inr (JArr xs)" and "find_name name xs = Inr None"
  shows "addToIndex env name address w =
           (Inr (), setItem (KEY_TAG @ ''-index'')
                      (JSON_stringify env (JArr (xs @ [IndexEntry_json (name, address)]))) w)"
  using assms getWalletIndex_pair [of env w] by (simp add: addToIndex_def)

lemma addToIndex_taken:
  assumes "fst (getWalletIndex env w) = Inr (JArr xs)" and "find_name name xs = Inr (Some x)"
  shows "addToIndex env name address w = (Inl (Error ''Key with that name already exists''), w)"
  using assms getWalletIndex_pair [of env w] find_name_truthy [OF assms(2)]
  by (simp add: addToIndex_def)

lemma storeWallet_stored:
  assumes "fst (loadFromStorage env (cosmosAddress wallet) w) = Inr storedWallet"
    and "truthy storedWallet"
  shows "storeWallet env wallet name password w =
           (Inl (Error ''The wallet was already stored. Can't store the same wallet again.''), w)"
  using assms loadFromStorage_pair [of env "cosmosAddress wallet" w]
  by (simp add: storeWallet_def)

lemma storeWallet_new:
  assumes "fst (loadFromStorage env (cosmosAddress wallet) w) = Inr storedWallet"
    and "\<not> truthy storedWallet"
  shows "storeWallet env wallet name password w =
           addToStorage env name (cosmosAddress wallet)
             (fst (encrypt env (JSON_stringify env (Wallet_json wallet)) password w))
             (snd (encrypt env (JSON_stringify env (Wallet_json wallet)) password w))"
  using assms loadFromStorage_pair [of env "cosmosAddress wallet" w]
  by (simp add: storeWallet_def split_beta)

lemma storeWallet_fresh:
  assumes "fst (loadFromStorage env (cosmosAddress wallet) w) = Inr storedWallet"
    and "\<not> truthy storedWallet"
    and "fst (getWalletIndex env w) = Inr (JArr xs)" and "find_name name xs = Inr None"
  shows "storeWallet env wallet name password w =
           (Inr (),
            setItem (KEY_TAG @ ''-'' @ cosmosAddress wallet)
              (JSON_stringify env (StoredWallet_json name (cosmosAddress wallet)
                 (fst (encrypt env (JSON_stringify env (Wallet_json wallet)) password w))))
              (setItem (KEY_TAG @ ''-index'')
                 (JSON_stringify env (JArr (xs @ [IndexEntry_json (name, cosmosAddress wallet)])))
                 (snd (encrypt env (JSON_stringify env (Wallet_json wallet)) password w))))"
proof -
  let ?w2 = "snd (encrypt env (JSON_stringify env (Wallet_json wallet)) password w)"
  have "fst (getWalletIndex env ?w2) = Inr (JArr xs)"
    using assms(3) fst_getWalletIndex_cong [OF localStorage_encrypt] by simp
  then show ?thesis
    using addToIndex_fresh [OF _ assms(4), of env ?w2]
    by (simp add: storeWallet_new [OF assms(1,2)] addToStorage_def)
qed

lemma storeWallet_taken:
  assumes "fst (loadFromStorage env (cosmosAddress wallet) w) = Inr storedWallet"
    and "\<not> truthy storedWallet"
    and "fst (getWalletIndex env w) = Inr (JArr xs)" and "find_name name xs = Inr (Some x)"
  shows "storeWallet env wallet name password w =
           (Inl (Error ''Key with that name already exists''),
            snd (encrypt env (JSON_stringify env (Wallet_json wallet)) password w))"
proof -
  let ?w2 = "snd (encrypt env (JSON_stringify env (Wallet_json wallet)) password w)"
  have "fst (getWalletIndex env ?w2) = Inr (JArr xs)"
    using assms(3) fst_getWalletIndex_cong [OF localStorage_encrypt] by simp
  then show ?thesis
    using addToIndex_taken [OF _ assms(4), of env ?w2]
    by (simp add: storeWallet_new [OF assms(1,2)] addToStorage_def)
qed

lemma find_name_entries:
  "find_name name (map IndexEntry_json es) =
     Inr (map_option IndexEntry_json (find (\<lambda>e. fst e = name) es))"
  by (induction es) (auto simp: IndexEntry_json_def)

lemma storeWallet_sample: "storeWallet sample_env sample_wallet ''main'' ''a'' empty_world = (Inr (), stored_world)"
proof -
  have 1: "fst (loadFromStorage sample_env (cosmosAddress sample_wallet) empty_world) = Inr JNull"
    by (simp add: loadFromStorage_def getItem_def empty_world_def)
  have 2: "fst (getWalletIndex sample_env empty_world) = Inr (JArr [])"
    by (simp add: getWalletIndex_def getItem_def empty_world_def or_default_def sample_env_def read_json_def)
  have "fst (storeWallet sample_env sample_wallet ''main'' ''a'' empty_world) = Inr ()"
    using storeWallet_fresh [OF 1 _ 2, of "''main''" "''a''"] by simp
  then show ?thesis by (simp add: stored_world_def prod_eq_iff)
qed

lemma find_name_entries_Some:
  assumes "name \<in> fst ` set es"
  shows "\<exists>x. find_name name (map IndexEntry_json es) = Inr (Some x)"
proof -
  have "find (\<lambda>e. fst e = name) es \<noteq> None"
    using assms by (auto simp: find_None_iff)
  then show ?thesis by (auto simp: find_name_entries)
qed

lemma decrypt_encrypt_other:
  assumes "Hex_faithful env"
  shows "decrypt env (fst (encrypt env message password w)) password' =
           AES_decrypt env (AES_encrypt env message (PBKDF2 env password (drawn_salt w) 8 100) (drawn_iv w))
             (PBKDF2 env password' (drawn_salt w) 8 100) (drawn_iv w)"
  using assms
  by (simp add: decrypt_eq encrypt_eq length_WordArray_toString length_drawn Hex_faithful_def)

lemma getStoredWallet_eq:
  assumes "fst (loadFromStorage env address w) = Inr storedWallet" and "truthy storedWallet"
  shows "getStoredWallet env address password w =
           (case try_decrypt env storedWallet password of
              None \<Rightarrow> Inl (Error ''Incorrect password'') | Some wallet \<Rightarrow> Inr wallet, w)"
  using assms loadFromStorage_pair [of env address w]
  by (simp add: getStoredWallet_def split: option.splits)

lemma testPassword_eq:
  assumes "fst (loadFromStorage env address w) = Inr storedWallet" and "truthy storedWallet"
  shows "testPassword env address password w =
           (case try_decrypt env storedWallet password of
              None \<Rightarrow> Inl (Error ''Password for wallet is incorrect'') | Some wallet \<Rightarrow> Inr (), w)"
  using assms loadFromStorage_pair [of env address w]
  by (simp add: testPassword_def split: option.splits)

lemma removeWallet_eq:
  assumes "fst (loadFromStorage env address w) = Inr storedWallet" and "truthy storedWallet"
  shows "removeWallet env address password w =
           (case try_decrypt env storedWallet password of
              None \<Rightarrow> (Inl (Error ''Password for wallet is incorrect''), w)
            | Some wallet \<Rightarrow> removeFromStorage env address w)"
  using assms loadFromStorage_pair [of env address w]
  by (simp add: removeWallet_def testPassword_eq [OF assms] split: option.splits)

lemma not_found:
  assumes "fst (loadFromStorage env address w) = Inr storedWallet" and "\<not> truthy storedWallet"
  shows "getStoredWallet env address password w = (Inl (Error ''No wallet found for requested address''), w)"
    and "testPassword env address password w = (Inl (Error ''No wallet found for request address''), w)"
    and "removeWallet env address password w = (Inl (Error ''No wallet found for requested address''), w)"
  using assms loadFromStorage_pair [of env address w]
  by (simp_all add: getStoredWallet_def testPassword_def removeWallet_def)

lemma try_decrypt_None_iff:
  "try_decrypt env storedWallet password = None \<longleftrightarrow>
     (\<forall>t. member storedWallet ''wallet'' = Some (JStr t) \<longrightarrow>
        decrypt env t password = None
        \<or> (\<exists>d. decrypt env t password = Some d \<and> JSON_parse env d = None))"
  by (auto simp: try_decrypt_def split: option.splits json.splits)

lemma filter_address_Inr:
  "filter_address address xs = Inr ys \<longleftrightarrow>
     JNull \<notin> set xs \<and> ys = filter (\<lambda>x. member x ''address'' \<noteq> Some (JStr address)) xs"
proof (induction xs arbitrary: ys)
  case Nil
  then show ?case by auto
next
  case (Cons x xs)
  show ?case
  proof (cases "filter_address address xs")
    case (Inl e)
    then show ?thesis using Cons.IH by auto
  next
    case (Inr zs)
    then show ?thesis using Cons.IH [of zs] by auto
  qed
qed

lemma removeFromStorage_ok:
  assumes "fst (getWalletIndex env w) = Inr (JArr xs)" and "JNull \<notin> set xs"
  shows "removeFromStorage env address w =
           (Inr (), removeItem (KEY_TAG @ ''-'' @ address)
              (setItem (KEY_TAG @ ''-index'')
                 (JSON_stringify env (JArr (filter (\<lambda>x. member x ''address'' \<noteq> Some (JStr address)) xs))) w))"
proof -
  have "filter_address address xs = Inr (filter (\<lambda>x. member x ''address'' \<noteq> Some (JStr address)) xs)"
    using assms(2) by (simp add: filter_address_Inr)
  then show ?thesis
    using assms(1) getWalletIndex_pair [of env w]
    by (simp add: removeFromStorage_def removeFromIndex_def)
qed

lemma removeFromStorage_InrD:
  assumes "removeFromStorage env address w = (Inr u, w')"
  shows "\<exists>xs. fst (getWalletIndex env w) = Inr (JArr xs) \<and> JNull \<notin> set xs \<and>
           w' = removeItem (KEY_TAG @ ''-'' @ address)
              (setItem (KEY_TAG @ ''-index'')
                 (JSON_stringify env (JArr (filter (\<lambda>x. member x ''address'' \<noteq> Some (JStr address)) xs))) w)"
proof -
  obtain r where r: "getWalletIndex env w = (r, w)"
    using getWalletIndex_pair by blast
  from assms r obtain xs where xs: "r = Inr (JArr xs)"
    by (cases r; cases "projr r") (auto simp: removeFromStorage_def removeFromIndex_def)
  from assms r xs obtain ys where ys: "filter_address address xs = Inr ys"
    by (cases "filter_address address xs") (auto simp: removeFromStorage_def removeFromIndex_def)
  then have "JNull \<notin> set xs" by (simp add: filter_address_Inr)
  then show ?thesis
    using removeFromStorage_ok [of env w xs address] assms r xs by auto
qed

lemma removeFromStorage_Inl:
  assumes "removeFromStorage env address w = (Inl e, w')"
  shows "w' = w"
proof -
  obtain r where r: "getWalletIndex env w = (r, w)"
    using getWalletIndex_pair by blast
  show ?thesis
  proof (cases r)
    case (Inl e')
    then show ?thesis using assms r by (simp add: removeFromStorage_def removeFromIndex_def)
  next
    case (Inr v)
    then show ?thesis using assms r
      by (cases v; cases "filter_address address (case v of JArr xs \<Rightarrow> xs | _ \<Rightarrow> [])")
         (simp_all add: removeFromStorage_def removeFromIndex_def)
  qed
qed

lemma removeWallet_InrD:
  assumes "removeWallet env address password w = (Inr u, w')"
  shows "\<exists>storedWallet wallet. fst (loadFromStorage env address w) = Inr storedWallet \<and>
           truthy storedWallet \<and> try_decrypt env storedWallet password = Some wallet \<and>
           removeFromStorage env address w = (Inr (), w')"
proof -
  obtain r where r: "fst (loadFromStorage env address w) = r" by simp
  show ?thesis
  proof (cases r)
    case (Inl e)
    then show ?thesis using assms r loadFromStorage_pair [of env address w]
      by (simp add: removeWallet_def)
  next
    case (Inr sw)
    show ?thesis
    proof (cases "truthy sw")
      case False
      then show ?thesis using assms r Inr not_found(3) [of env address w sw password] by simp
    next
      case True
      then show ?thesis using assms r Inr removeWallet_eq [of env address w sw password]
        by (auto split: option.splits)
    qed
  qed
qed

section \<open>The invariant is kept\<close>

lemma wallet_key_index: "KEY_TAG @ ''-'' @ a = KEY_TAG @ ''-index'' \<longleftrightarrow> a = ''index''"
  by simp

lemma wallet_key_inj: "KEY_TAG @ ''-'' @ a = KEY_TAG @ ''-'' @ b \<longleftrightarrow> a = b"
  by simp

lemma StoredWallet_json_inj:
  "StoredWallet_json n a c = StoredWallet_json n' a' c' \<longleftrightarrow> n = n' \<and> a = a' \<and> c = c'"
  by (auto simp: StoredWallet_json_def)

lemma IndexEntry_json_inj: "inj IndexEntry_json"
  by (auto simp: inj_on_def IndexEntry_json_def prod_eq_iff)

lemma map_IndexEntry_json_eq: "map IndexEntry_json es = map IndexEntry_json es' \<longleftrightarrow> es = es'"
  using IndexEntry_json_inj by simp

lemma count_list_distinct: "distinct xs \<Longrightarrow> x \<in> set xs \<Longrightarrow> count_list xs x = 1"
  by (induction xs) auto

lemma wallet_entry_load:
  "wallet_entry env w a = Some v \<Longrightarrow> fst (loadFromStorage env a w) = Inr v"
  by (auto simp: wallet_entry_def loadFromStorage_def getItem_def split: option.splits if_splits)

lemma store_consistent_cong:
  "localStorage w' = localStorage w \<Longrightarrow> store_consistent env w' = store_consistent env w"
  using fst_getWalletIndex_cong [of w' w env]
  by (simp add: store_consistent_def wallet_entry_def)

lemma index_not_wallet:
  assumes "fst (getWalletIndex env w) = Inr (JArr xs)"
  shows "wallet_entry env w ''index'' \<noteq> Some (StoredWallet_json n a c)"
  using assms
  by (auto simp: wallet_entry_def getWalletIndex_def getItem_def or_default_def StoredWallet_json_def
      split: option.splits if_splits)

lemma consistent_index_address:
  assumes "fst (getWalletIndex env w) = Inr (JArr xs)"
    and "\<forall>e \<in> set es. \<exists>c. wallet_entry env w (snd e) = Some (StoredWallet_json (fst e) (snd e) c)"
  shows "''index'' \<notin> snd ` set es"
  using assms index_not_wallet [OF assms(1)] by force

lemma store_consistent_invariant:
  assumes "store_consistent env w"
  shows "store_invariant env w"
proof -
  obtain es where es: "fst (getWalletIndex env w) = Inr (JArr (map IndexEntry_json es))"
      "distinct (map fst es)" "distinct (map snd es)"
      "\<forall>a. a \<noteq> ''index'' \<longrightarrow> (localStorage w (KEY_TAG @ ''-'' @ a) \<noteq> None) = (a \<in> snd ` set es)"
      "\<forall>e \<in> set es. \<exists>c. wallet_entry env w (snd e) = Some (StoredWallet_json (fst e) (snd e) c)"
    using assms unfolding store_consistent_def by blast
  have key: "k \<in> snd ` set es \<and> a = k" if "wallet_entry env w k = Some (StoredWallet_json n a c)" for k n a c
  proof -
    have "k \<noteq> ''index''" using that index_not_wallet [OF es(1)] by blast
    moreover have "localStorage w (KEY_TAG @ ''-'' @ k) \<noteq> None"
      using that by (auto simp: wallet_entry_def split: option.splits)
    ultimately have "k \<in> snd ` set es" using es(4) by blast
    then obtain e where "e \<in> set es" "snd e = k" by auto
    then obtain c' where "wallet_entry env w k = Some (StoredWallet_json (fst e) k c')"
      using es(5) by force
    then show ?thesis using that \<open>k \<in> snd ` set es\<close> by (simp add: StoredWallet_json_inj)
  qed
  have once: "count_list (map snd es) a = 1" if "a \<in> snd ` set es" for a
    using that es(3) by (simp add: count_list_distinct)
  show ?thesis
    unfolding store_invariant_def
  proof (intro exI [of _ es] conjI allI impI)
    show "fst (getWalletIndex env w) = Inr (JArr (map IndexEntry_json es))" by (rule es(1))
    show "distinct (map fst es)" by (rule es(2))
    show "count_list (map snd es) a = 1" if "wallet_entry env w k = Some (StoredWallet_json n a c)" for k n a c
      using key [OF that] once by blast
    show "k = k'" if "wallet_entry env w k = Some (StoredWallet_json n a c) \<and>
        wallet_entry env w k' = Some (StoredWallet_json n' a c')" for k k' n n' a c c'
      using key that by blast
  qed
qed

lemma localStorage_setItem: "localStorage (setItem k v w) = (localStorage w)(k \<mapsto> v)"
  by (simp add: setItem_def)

lemma localStorage_removeItem: "localStorage (removeItem k w) = (localStorage w)(k := None)"
  by (simp add: removeItem_def)

lemma JSON_faithfulD:
  assumes "JSON_faithful env"
  shows "JSON_parse env [] = None"
    and "JSON_parse env ''[]'' = Some (JArr [])"
    and "JSON_parse env (JSON_stringify env (Wallet_json wallet)) = Some (Wallet_json wallet)"
    and "JSON_parse env (JSON_stringify env (StoredWallet_json n a c)) = Some (StoredWallet_json n a c)"
    and "JSON_parse env (JSON_stringify env (JArr (map IndexEntry_json es)))
           = Some (JArr (map IndexEntry_json es))"
  using assms by (simp_all add: JSON_faithful_def)

lemma getWalletIndex_written:
  assumes "localStorage w (KEY_TAG @ ''-index'') = Some (JSON_stringify env v)"
    and "JSON_parse env (JSON_stringify env v) = Some v" and "JSON_parse env [] = None"
  shows "fst (getWalletIndex env w) = Inr v"
proof -
  have "JSON_stringify env v \<noteq> []" using assms(2,3) by auto
  then show ?thesis using assms(1,2)
    by (simp add: getWalletIndex_def getItem_def or_default_def)
qed

lemma wallet_entry_written:
  assumes "localStorage w (KEY_TAG @ ''-'' @ a) = Some (JSON_stringify env v)"
    and "JSON_parse env (JSON_stringify env v) = Some v" and "JSON_parse env [] = None"
  shows "wallet_entry env w a = Some v"
proof -
  have "JSON_stringify env v \<noteq> []" using assms(2,3) by auto
  then show ?thesis using assms(1,2) by (simp add: wallet_entry_def)
qed

lemma wallet_entry_cong:
  "localStorage w' (KEY_TAG @ ''-'' @ a) = localStorage w (KEY_TAG @ ''-'' @ a) \<Longrightarrow>
   wallet_entry env w' a = wallet_entry env w a"
  by (simp add: wallet_entry_def)

lemma store_consistent_empty:
  assumes "JSON_parse env ''[]'' = Some (JArr [])" and "localStorage w = Map.empty"
  shows "store_consistent env w"
  unfolding store_consistent_def
  using assms by (intro exI [of _ "[]"]) (simp add: getWalletIndex_def getItem_def or_default_def)

lemma store_consistent_storeWallet:
  assumes faithful: "JSON_faithful env" and cons: "store_consistent env w"
    and addr: "cosmosAddress wallet \<noteq> ''index''"
  shows "store_consistent env (snd (storeWallet env wallet name password w))"
proof -
  let ?a = "cosmosAddress wallet"
  let ?m = "JSON_stringify env (Wallet_json wallet)"
  let ?w2 = "snd (encrypt env ?m password w)"
  let ?c = "fst (encrypt env ?m password w)"
  obtain es where es: "fst (getWalletIndex env w) = Inr (JArr (map IndexEntry_json es))"
      "distinct (map fst es)" "distinct (map snd es)"
      "\<forall>a. a \<noteq> ''index'' \<longrightarrow> (localStorage w (KEY_TAG @ ''-'' @ a) \<noteq> None) = (a \<in> snd ` set es)"
      "\<forall>e \<in> set es. \<exists>c. wallet_entry env w (snd e) = Some (StoredWallet_json (fst e) (snd e) c)"
    using cons unfolding store_consistent_def by blast
  have empty: "JSON_parse env [] = None" using faithful by (rule JSON_faithfulD(1))
  have w2: "store_consistent env ?w2"
    using cons store_consistent_cong [OF localStorage_encrypt] by blast
  show ?thesis
  proof (cases "fst (loadFromStorage env ?a w)")
    case (Inl e)
    then have "storeWallet env wallet name password w = (Inl e, w)"
      using loadFromStorage_pair [of env ?a w] by (simp add: storeWallet_def)
    then show ?thesis using cons by simp
  next
    case (Inr sw)
    show ?thesis
    proof (cases "truthy sw")
      case True
      then show ?thesis using cons storeWallet_stored [OF Inr True] by simp
    next
      case False
      show ?thesis
      proof (cases "find (\<lambda>e. fst e = name) es")
        case (Some e)
        then have "find_name name (map IndexEntry_json es) = Inr (Some (IndexEntry_json e))"
          by (simp add: find_name_entries)
        then show ?thesis using w2 storeWallet_taken [OF Inr False es(1)] by simp
      next
        case None
        then have fresh_name: "name \<notin> fst ` set es" by (auto simp: find_None_iff)
        have fresh_addr: "?a \<notin> snd ` set es"
        proof
          assume "?a \<in> snd ` set es"
          then obtain e where "e \<in> set es" "snd e = ?a" by auto
          then obtain c where "wallet_entry env w ?a = Some (StoredWallet_json (fst e) ?a c)"
            using es(5) by force
          then have "fst (loadFromStorage env ?a w) = Inr (StoredWallet_json (fst e) ?a c)"
            by (rule wallet_entry_load)
          then show False using Inr False by (simp add: StoredWallet_json_def)
        qed
        let ?es = "es @ [(name, ?a)]"
        let ?idx = "JSON_stringify env (JArr (map IndexEntry_json es @ [IndexEntry_json (name, ?a)]))"
        let ?sw = "JSON_stringify env (StoredWallet_json name ?a ?c)"
        let ?w' = "setItem (KEY_TAG @ ''-'' @ ?a) ?sw (setItem (KEY_TAG @ ''-index'') ?idx ?w2)"
        have "find_name name (map IndexEntry_json es) = Inr None"
          using None by (simp add: find_name_entries)
        then have result: "storeWallet env wallet name password w = (Inr (), ?w')"
          using storeWallet_fresh [OF Inr False es(1)] by simp
        note store = localStorage_setItem localStorage_encrypt
        have idx_rt: "JSON_parse env ?idx = Some (JArr (map IndexEntry_json ?es))"
          using JSON_faithfulD(5) [OF faithful, of ?es] by simp
        have sw_rt: "JSON_parse env ?sw = Some (StoredWallet_json name ?a ?c)"
          using faithful by (rule JSON_faithfulD(4))
        have "localStorage ?w' (KEY_TAG @ ''-index'') = Some ?idx"
          using addr by (simp add: store)
        then have 1: "fst (getWalletIndex env ?w') = Inr (JArr (map IndexEntry_json ?es))"
          using getWalletIndex_written [of ?w' env "JArr (map IndexEntry_json ?es)"] idx_rt empty
          by simp
        have 2: "distinct (map fst ?es)" using es(2) fresh_name by simp
        have 3: "distinct (map snd ?es)" using es(3) fresh_addr by simp
        have 4: "\<forall>a. a \<noteq> ''index'' \<longrightarrow>
            (localStorage ?w' (KEY_TAG @ ''-'' @ a) \<noteq> None) = (a \<in> snd ` set ?es)"
          using es(4) by (auto simp: store)
        have new: "wallet_entry env ?w' ?a = Some (StoredWallet_json name ?a ?c)"
          using wallet_entry_written [of ?w' ?a env "StoredWallet_json name ?a ?c"] sw_rt empty
          by (simp add: store)
        have old: "\<exists>c. wallet_entry env ?w' (snd e) = Some (StoredWallet_json (fst e) (snd e) c)"
          if "e \<in> set es" for e
        proof -
          have "snd e \<in> snd ` set es" using that by (rule imageI)
          then have "snd e \<noteq> ?a" using fresh_addr by metis
          moreover have "snd e \<noteq> ''index''"
            using \<open>snd e \<in> snd ` set es\<close> consistent_index_address [OF es(1,5)] by metis
          ultimately have "wallet_entry env ?w' (snd e) = wallet_entry env w (snd e)"
            by (intro wallet_entry_cong) (simp add: store)
          then show ?thesis using es(5) that by simp
        qed
        have 5: "\<forall>e \<in> set ?es. \<exists>c. wallet_entry env ?w' (snd e) = Some (StoredWallet_json (fst e) (snd e) c)"
          using new old by auto
        have "store_consistent env ?w'"
          unfolding store_consistent_def using 1 2 3 4 5 by blast
        then show ?thesis by (simp add: result)
      qed
    qed
  qed
qed

lemma removeWallet_Inl:
  assumes "removeWallet env address password w = (Inl e, w')"
  shows "w' = w"
proof (cases "fst (loadFromStorage env address w)")
  case (Inl e')
  then show ?thesis using assms loadFromStorage_pair [of env address w]
    by (simp add: removeWallet_def)
next
  case (Inr sw)
  show ?thesis
  proof (cases "truthy sw")
    case False
    then show ?thesis using assms not_found(3) [OF Inr False] by simp
  next
    case True
    then show ?thesis using assms removeWallet_eq [OF Inr True, of password] removeFromStorage_Inl
      by (cases "try_decrypt env sw password") auto
  qed
qed

lemma filter_IndexEntries:
  "filter (\<lambda>x. member x ''address'' \<noteq> Some (JStr a)) (map IndexEntry_json es) =
     map IndexEntry_json (filter (\<lambda>e. snd e \<noteq> a) es)"
  by (induction es) (simp_all add: IndexEntry_json_def)

lemma store_consistent_removeWallet:
  assumes faithful: "JSON_faithful env" and cons: "store_consistent env w"
  shows "store_consistent env (snd (removeWallet env address password w))"
proof (cases "fst (removeWallet env address password w)")
  case (Inl e)
  then have "removeWallet env address password w = (Inl e, snd (removeWallet env address password w))"
    by (simp add: prod_eq_iff)
  then have "snd (removeWallet env address password w) = w" by (rule removeWallet_Inl)
  then show ?thesis using cons by simp
next
  case (Inr u)
  let ?w' = "snd (removeWallet env address password w)"
  have "removeWallet env address password w = (Inr u, ?w')"
    using Inr by (simp add: prod_eq_iff)
  then obtain sw wallet where sw: "fst (loadFromStorage env address w) = Inr sw" "truthy sw"
      "try_decrypt env sw password = Some wallet" "removeFromStorage env address w = (Inr (), ?w')"
    using removeWallet_InrD by blast
  obtain es where es: "fst (getWalletIndex env w) = Inr (JArr (map IndexEntry_json es))"
      "distinct (map fst es)" "distinct (map snd es)"
      "\<forall>a. a \<noteq> ''index'' \<longrightarrow> (localStorage w (KEY_TAG @ ''-'' @ a) \<noteq> None) = (a \<in> snd ` set es)"
      "\<forall>e \<in> set es. \<exists>c. wallet_entry env w (snd e) = Some (StoredWallet_json (fst e) (snd e) c)"
    using cons unfolding store_consistent_def by blast
  have empty: "JSON_parse env [] = None" using faithful by (rule JSON_faithfulD(1))
  have addr: "address \<noteq> ''index''"
  proof
    assume "address = ''index''"
    then have "fst (loadFromStorage env address w) = Inr JNull
        \<or> fst (loadFromStorage env address w) = Inr (JArr (map IndexEntry_json es))"
      using es(1)
      by (auto simp: loadFromStorage_def getWalletIndex_def getItem_def or_default_def
          split: option.splits if_splits)
    then show False using sw(1,2,3) by (auto simp: try_decrypt_def)
  qed
  let ?es = "filter (\<lambda>e. snd e \<noteq> address) es"
  let ?idx = "JSON_stringify env (JArr (map IndexEntry_json ?es))"
  have "JNull \<notin> set (map IndexEntry_json es)" by (auto simp: IndexEntry_json_def)
  then have "removeFromStorage env address w =
      (Inr (), removeItem (KEY_TAG @ ''-'' @ address) (setItem (KEY_TAG @ ''-index'') ?idx w))"
    using removeFromStorage_ok [OF es(1), of address] by (simp add: filter_IndexEntries)
  then have w': "?w' = removeItem (KEY_TAG @ ''-'' @ address) (setItem (KEY_TAG @ ''-index'') ?idx w)"
    using sw(4) by simp
  note store = localStorage_setItem localStorage_removeItem
  have "localStorage ?w' (KEY_TAG @ ''-index'') = Some ?idx"
    using addr by (simp add: w' store)
  then have 1: "fst (getWalletIndex env ?w') = Inr (JArr (map IndexEntry_json ?es))"
    using getWalletIndex_written [of ?w' env "JArr (map IndexEntry_json ?es)"]
      JSON_faithfulD(5) [OF faithful, of ?es] empty
    by simp
  have 2: "distinct (map fst ?es)" using es(2) by (simp add: distinct_map_filter)
  have 3: "distinct (map snd ?es)" using es(3) by (simp add: distinct_map_filter)
  have 4: "\<forall>a. a \<noteq> ''index'' \<longrightarrow>
      (localStorage ?w' (KEY_TAG @ ''-'' @ a) \<noteq> None) = (a \<in> snd ` set ?es)"
    using es(4) by (auto simp: w' store)
  have 5: "\<forall>e \<in> set ?es. \<exists>c. wallet_entry env ?w' (snd e) = Some (StoredWallet_json (fst e) (snd e) c)"
  proof
    fix e assume e: "e \<in> set ?es"
    then have "snd e \<in> snd ` set es" by auto
    then have "snd e \<noteq> ''index''"
      using consistent_index_address [OF es(1,5)] by metis
    moreover have "snd e \<noteq> address" using e by simp
    ultimately have "wallet_entry env ?w' (snd e) = wallet_entry env w (snd e)"
      by (intro wallet_entry_cong) (simp add: w' store)
    then show "\<exists>c. wallet_entry env ?w' (snd e) = Some (StoredWallet_json (fst e) (snd e) c)"
      using es(5) e by simp
  qed
  show ?thesis
    unfolding store_consistent_def using 1 2 3 4 5 by blast
qed

lemma snd_getStoredWallet: "snd (getStoredWallet env address password w) = w"
  using loadFromStorage_pair [of env address w]
  by (cases "fst (loadFromStorage env address w)")
     (auto simp: getStoredWallet_def split: option.splits)

lemma snd_testPassword: "snd (testPassword env address password w) = w"
  using loadFromStorage_pair [of env address w]
  by (cases "fst (loadFromStorage env address w)")
     (auto simp: testPassword_def split: option.splits)

section \<open>The sample store\<close>

lemma sample_env_fields:
  "JSON_parse sample_env = read_json" "JSON_stringify sample_env = show_json"
  "PBKDF2 sample_env = sample_PBKDF2" "AES_encrypt sample_env = sample_encrypt"
  "AES_decrypt sample_env = sample_decrypt" "Hex_parse sample_env = hex_parse"
  by (simp_all add: sample_env_def)

lemma stored_world_eq:
  "stored_world =
     setItem (KEY_TAG @ ''-'' @ cosmosAddress sample_wallet)
       (show_json (StoredWallet_json ''main'' (cosmosAddress sample_wallet)
          (fst (encrypt sample_env (show_json (Wallet_json sample_wallet)) ''a'' empty_world))))
       (setItem (KEY_TAG @ ''-index'')
          (show_json (JArr [IndexEntry_json (''main'', cosmosAddress sample_wallet)]))
          (snd (encrypt sample_env (show_json (Wallet_json sample_wallet)) ''a'' empty_world)))"
proof -
  have 1: "fst (loadFromStorage sample_env (cosmosAddress sample_wallet) empty_world) = Inr JNull"
    by (simp add: loadFromStorage_def getItem_def empty_world_def)
  have 2: "fst (getWalletIndex sample_env empty_world) = Inr (JArr [])"
    by (simp add: getWalletIndex_def getItem_def empty_world_def or_default_def sample_env_def read_json_def)
  have 3: "JSON_stringify sample_env = show_json" by (simp add: sample_env_def)
  show ?thesis
    unfolding stored_world_def
    using storeWallet_fresh [OF 1 _ 2, of "''main''" "''a''"] by (simp add: 3 del: show_json.simps)
qed

lemma load_stored_world:
  "fst (loadFromStorage sample_env (cosmosAddress sample_wallet) stored_world) =
     Inr (StoredWallet_json ''main'' (cosmosAddress sample_wallet)
          (fst (encrypt sample_env (show_json (Wallet_json sample_wallet)) ''a'' empty_world)))"
proof -
  have "JSON_parse sample_env [] = None" by (simp add: sample_env_def read_json_def)
  moreover have "JSON_parse sample_env (show_json (StoredWallet_json ''main'' (cosmosAddress sample_wallet)
          (fst (encrypt sample_env (show_json (Wallet_json sample_wallet)) ''a'' empty_world)))) =
       Some (StoredWallet_json ''main'' (cosmosAddress sample_wallet)
          (fst (encrypt sample_env (show_json (Wallet_json sample_wallet)) ''a'' empty_world)))"
    by (simp only: sample_env_def env.select_convs read_StoredWallet)
  ultimately show ?thesis
    unfolding stored_world_eq by (simp only: loadFromStorage_setItem fst_conv)
qed

lemma index_stored_world:
  "fst (getWalletIndex sample_env stored_world) =
     Inr (JArr (map IndexEntry_json [(''main'', cosmosAddress sample_wallet)]))"
proof -
  have "localStorage stored_world (KEY_TAG @ ''-index'') =
       Some (show_json (JArr (map IndexEntry_json [(''main'', cosmosAddress sample_wallet)])))"
    unfolding stored_world_eq
    by (simp add: setItem_def KEY_TAG_def sample_wallet_def localStorage_encrypt empty_world_def
        del: show_json.simps)
  moreover have "show_json (JArr (map IndexEntry_json [(''main'', cosmosAddress sample_wallet)])) \<noteq> []"
    by (rule show_json_nonempty)
  moreover have "JSON_parse sample_env (show_json (JArr (map IndexEntry_json [(''main'', cosmosAddress sample_wallet)])))
     = Some (JArr (map IndexEntry_json [(''main'', cosmosAddress sample_wallet)]))"
    by (simp only: sample_env_def env.select_convs read_Index)
  ultimately show ?thesis
    by (simp add: getWalletIndex_def getItem_def or_default_def del: show_json.simps)
qed

lemma load_other_stored_world:
  "fst (loadFromStorage sample_env (cosmosAddress other_wallet) stored_world) = Inr JNull"
  unfolding stored_world_eq
  by (simp add: loadFromStorage_def getItem_def setItem_def KEY_TAG_def sample_wallet_def
      other_wallet_def localStorage_encrypt empty_world_def del: show_json.simps)

lemma length_sample_PBKDF2: "length (sample_PBKDF2 password salt n i) = 4 * n"
  by (simp add: sample_PBKDF2_def)

lemma sample_PBKDF2_zero:
  "sample_PBKDF2 (password @ [CHR 0x00]) salt n i = sample_PBKDF2 password salt n i"
  unfolding sample_PBKDF2_def
  by (rule map_cong) (auto simp: nth_append less_Suc_eq)

lemma sample_decrypt_other_key:
  assumes "length key' = length key" and "key' \<noteq> key"
  shows "sample_decrypt (sample_encrypt message key iv) key' iv = None"
proof -
  have "WordArray_toString key' \<noteq> WordArray_toString key"
    using assms(2) hex_parse_toString by metis
  then show ?thesis using assms(1)
    by (simp add: sample_decrypt_def sample_encrypt_def Let_def length_WordArray_toString)
qed

lemma sample_PBKDF2_a_b: "sample_PBKDF2 ''b'' salt 8 100 \<noteq> sample_PBKDF2 ''a'' salt 8 100"
proof
  assume "sample_PBKDF2 ''b'' salt 8 100 = sample_PBKDF2 ''a'' salt 8 100"
  then have "sample_PBKDF2 ''b'' salt 8 100 ! 0 = sample_PBKDF2 ''a'' salt 8 100 ! 0" by simp
  then obtain x :: "8 word" where "98 XOR x = 97 XOR x"
    by (simp add: sample_PBKDF2_def del: upt_Suc)
  then have "(98 XOR x) XOR x = (97 XOR x) XOR x" by simp
  then show False by (simp add: xor.assoc)
qed

lemma try_decrypt_stored:
  "try_decrypt sample_env
     (StoredWallet_json name address (fst (encrypt sample_env message password w))) password' =
   (case sample_decrypt
           (sample_encrypt message (sample_PBKDF2 password (drawn_salt w) 8 100) (drawn_iv w))
           (sample_PBKDF2 password' (drawn_salt w) 8 100) (drawn_iv w) of
      None \<Rightarrow> None
    | Some decrypted \<Rightarrow> read_json decrypted)"
proof -
  have "decrypt sample_env (fst (encrypt sample_env message password w)) password' =
          sample_decrypt
           (sample_encrypt message (sample_PBKDF2 password (drawn_salt w) 8 100) (drawn_iv w))
           (sample_PBKDF2 password' (drawn_salt w) 8 100) (drawn_iv w)"
    using decrypt_encrypt_other [OF sample_env_Hex] by (simp add: sample_env_fields)
  then show ?thesis
    by (simp add: try_decrypt_def StoredWallet_json_def sample_env_fields cong: option.case_cong)
qed

lemma try_decrypt_stored_b:
  "try_decrypt sample_env
     (StoredWallet_json ''main'' (cosmosAddress sample_wallet)
        (fst (encrypt sample_env (show_json (Wallet_json sample_wallet)) ''a'' empty_world))) ''b'' = None"
  unfolding try_decrypt_stored
  by (simp only: sample_decrypt_other_key [OF _ sample_PBKDF2_a_b] length_sample_PBKDF2 option.case)

lemma try_decrypt_stored_a0:
  "try_decrypt sample_env
     (StoredWallet_json ''main'' (cosmosAddress sample_wallet)
        (fst (encrypt sample_env (show_json (Wallet_json sample_wallet)) ''a'' empty_world)))
     [CHR ''a'', CHR 0x00] = Some (Wallet_json sample_wallet)"
proof -
  have "sample_PBKDF2 [CHR ''a'', CHR 0x00] (drawn_salt empty_world) 8 100 =
        sample_PBKDF2 ''a'' (drawn_salt empty_world) 8 100"
    using sample_PBKDF2_zero [of "''a''"] by simp
  moreover have "sample_decrypt (sample_encrypt m k iv) k iv = Some m" for m k iv
    using sample_env_AES by (simp add: AES_faithful_def sample_env_def)
  ultimately show ?thesis
    unfolding try_decrypt_stored by (simp only: option.case read_Wallet)
qed

lemma try_decrypt_stored_a:
  "try_decrypt sample_env
     (StoredWallet_json ''main'' (cosmosAddress sample_wallet)
        (fst (encrypt sample_env (show_json (Wallet_json sample_wallet)) ''a'' empty_world)))
     ''a'' = Some (Wallet_json sample_wallet)"
proof -
  have "sample_decrypt (sample_encrypt m k iv) k iv = Some m" for m k iv
    using sample_env_AES by (simp add: AES_faithful_def sample_env_def)
  then show ?thesis
    unfolding try_decrypt_stored by (simp only: option.case read_Wallet)
qed

lemma removeWallet_stored_a0:
  "removeWallet sample_env (cosmosAddress sample_wallet) [CHR ''a'', CHR 0x00] stored_world =
     (Inr (), removeItem (KEY_TAG @ ''-'' @ cosmosAddress sample_wallet)
        (setItem (KEY_TAG @ ''-index'') (show_json (JArr [])) stored_world))"
proof -
  have t: "truthy (StoredWallet_json ''main'' (cosmosAddress sample_wallet)
          (fst (encrypt sample_env (show_json (Wallet_json sample_wallet)) ''a'' empty_world)))"
    by (simp add: StoredWallet_json_def)
  have n: "JNull \<notin> set (map IndexEntry_json [(''main'', cosmosAddress sample_wallet)])"
    by (simp add: IndexEntry_json_def)
  have f: "filter (\<lambda>x. member x ''address'' \<noteq> Some (JStr (cosmosAddress sample_wallet)))
             (map IndexEntry_json [(''main'', cosmosAddress sample_wallet)]) = []"
    by (simp add: IndexEntry_json_def)
  have s: "JSON_stringify sample_env = show_json" by (simp add: sample_env_def)
  show ?thesis
    using try_decrypt_stored_a0 removeFromStorage_ok [OF index_stored_world n, of "cosmosAddress sample_wallet"]
    by (simp only: removeWallet_eq [OF load_stored_world t] option.case f s)
qed

lemma removeWallet_stored_a:
  "removeWallet sample_env (cosmosAddress sample_wallet) ''a'' stored_world = (Inr (), removed_world)"
proof -
  have t: "truthy (StoredWallet_json ''main'' (cosmosAddress sample_wallet)
          (fst (encrypt sample_env (show_json (Wallet_json sample_wallet)) ''a'' empty_world)))"
    by (simp add: StoredWallet_json_def)
  have n: "JNull \<notin> set (map IndexEntry_json [(''main'', cosmosAddress sample_wallet)])"
    by (simp add: IndexEntry_json_def)
  have "fst (removeWallet sample_env (cosmosAddress sample_wallet) ''a'' stored_world) = Inr ()"
    using try_decrypt_stored_a removeFromStorage_ok [OF index_stored_world n, of "cosmosAddress sample_wallet"]
    by (simp only: removeWallet_eq [OF load_stored_world t] option.case fst_conv)
  then show ?thesis by (simp add: removed_world_def prod_eq_iff)
qed

lemma index_dangling_world:
  "fst (getWalletIndex sample_env dangling_world) =
     Inr (JArr (map IndexEntry_json [(''old'', cosmosAddress sample_wallet)]))"
proof -
  have "localStorage dangling_world (KEY_TAG @ ''-index'') =
      Some (JSON_stringify sample_env (JArr (map IndexEntry_json [(''old'', cosmosAddress sample_wallet)])))"
    by (simp add: dangling_world_def localStorage_setItem sample_env_fields del: show_json.simps)
  then show ?thesis
    using getWalletIndex_written JSON_faithfulD(1,5) [OF sample_env_JSON] by blast
qed

lemma load_dangling_world:
  "fst (loadFromStorage sample_env (cosmosAddress sample_wallet) dangling_world) = Inr JNull"
  by (simp add: loadFromStorage_def getItem_def dangling_world_def localStorage_setItem
      KEY_TAG_def sample_wallet_def empty_world_def del: show_json.simps)

lemma wallet_entry_dangling_world:
  "wallet_entry sample_env dangling_world k \<noteq> Some (StoredWallet_json n a c)"
proof (cases "k = ''index''")
  case True
  then show ?thesis using index_not_wallet [OF index_dangling_world] by simp
next
  case False
  then have "localStorage dangling_world (KEY_TAG @ ''-'' @ k) = None"
    by (simp add: dangling_world_def localStorage_setItem empty_world_def)
  then show ?thesis by (simp add: wallet_entry_def)
qed

lemma store_invariant_dangling_world: "store_invariant sample_env dangling_world"
  unfolding store_invariant_def
  using index_dangling_world wallet_entry_dangling_world
  by (intro exI [of _ "[(''old'', cosmosAddress sample_wallet)]"]) simp

lemma storeWallet_dangling_world:
  "storeWallet sample_env sample_wallet ''main'' ''a'' dangling_world =
     (Inr (),
      setItem (KEY_TAG @ ''-'' @ cosmosAddress sample_wallet)
        (JSON_stringify sample_env (StoredWallet_json ''main'' (cosmosAddress sample_wallet)
           (fst (encrypt sample_env (JSON_stringify sample_env (Wallet_json sample_wallet)) ''a'' dangling_world))))
        (setItem (KEY_TAG @ ''-index'')
           (JSON_stringify sample_env (JArr (map IndexEntry_json
              [(''old'', cosmosAddress sample_wallet), (''main'', cosmosAddress sample_wallet)])))
           (snd (encrypt sample_env (JSON_stringify sample_env (Wallet_json sample_wallet)) ''a'' dangling_world))))"
proof -
  have "find_name ''main'' (map IndexEntry_json [(''old'', cosmosAddress sample_wallet)]) = Inr None"
    by (simp only: find_name_entries) simp
  then show ?thesis
    using storeWallet_fresh [OF load_dangling_world _ index_dangling_world, of "''main''" "''a''"]
    by simp
qed

section \<open>The address of the test vector, step by step\<close>

lemma upt_0: "0 < n \<Longrightarrow> [0..<n] = 0 # [Suc 0..<n]"
  by (simp add: upt_conv_Cons)

lemma upt_Suc_0: "Suc 0 < n \<Longrightarrow> [Suc 0..<n] = Suc 0 # [2..<n]"
  by (simp add: upt_conv_Cons numeral_2_eq_2)

lemma replicate_numeral: "replicate (numeral k) x = x # replicate (pred_numeral k) x"
  by (simp add: numeral_eq_Suc)

lemma sha_pad_pk1:
  "md_pad be_bytes8 [0x52, 0xFD, 0xFC, 0x07, 0x21, 0x82, 0x65, 0x4F, 0x16, 0x3F, 0x5F, 0x0F, 0x9A,
     0x62, 0x1D, 0x72, 0x95, 0x66, 0xC7, 0x4D, 0x10, 0x03, 0x7C, 0x4D, 0x7B, 0xBB, 0x04, 0x07,
     0xD1, 0xE2, 0xC6, 0x49, 0x81] = [0x52, 0xFD, 0xFC, 0x07, 0x21, 0x82, 0x65, 0x4F, 0x16,
     0x3F, 0x5F, 0x0F, 0x9A, 0x62, 0x1D, 0x72, 0x95, 0x66, 0xC7, 0x4D, 0x10, 0x03, 0x7C, 0x4D,
     0x7B, 0xBB, 0x04, 0x07, 0xD1, 0xE2, 0xC6, 0x49, 0x81, 0x80, 0x00, 0x00, 0x00, 0x00, 0x00,
     0x00, 0x00, 0x00, 0x00, 0x00, 0x00, 0x00, 0x00, 0x00, 0x00, 0x00, 0x00, 0x00, 0x00, 0x00,
     0x00, 0x00, 0x00, 0x00, 0x00, 0x00, 0x00, 0x00, 0x01, 0x08]"
  by (simp add: md_pad_def be_bytes8_def replicate_numeral)

lemma sha_blocks_pk1:
  "chunks 64 [0x52, 0xFD, 0xFC, 0x07, 0x21, 0x82, 0x65, 0x4F, 0x16, 0x3F, 0x5F, 0x0F, 0x9A, 0x62,
     0x1D, 0x72, 0x95, 0x66, 0xC7, 0x4D, 0x10, 0x03, 0x7C, 0x4D, 0x7B, 0xBB, 0x04, 0x07, 0xD1,
     0xE2, 0xC6, 0x49, 0x81, 0x80, 0x00, 0x00, 0x00, 0x00, 0x00, 0x00, 0x00, 0x00, 0x00, 0x00,
     0x00, 0x00, 0x00, 0x00, 0x00, 0x00, 0x00, 0x00, 0x00, 0x00, 0x00, 0x00, 0x00, 0x00, 0x00,
     0x00, 0x00, 0x00, 0x01, 0x08] = [[0x52, 0xFD, 0xFC, 0x07, 0x21, 0x82, 0x65, 0x4F, 0x16,
     0x3F, 0x5F, 0x0F, 0x9A, 0x62, 0x1D, 0x72, 0x95, 0x66, 0xC7, 0x4D, 0x10, 0x03, 0x7C, 0x4D,
     0x7B, 0xBB, 0x04, 0x07, 0xD1, 0xE2, 0xC6, 0x49, 0x81, 0x80, 0x00, 0x00, 0x00, 0x00, 0x00,
     0x00, 0x00, 0x00, 0x00, 0x00, 0x00, 0x00, 0x00, 0x00, 0x00, 0x00, 0x00, 0x00, 0x00, 0x00,
     0x00, 0x00, 0x00, 0x00, 0x00, 0x00, 0x00, 0x00, 0x01, 0x08]]"
  by simp

lemma sha_words_pk1:
  "map be32 (chunks 4 [0x52, 0xFD, 0xFC, 0x07, 0x21, 0x82, 0x65, 0x4F, 0x16, 0x3F, 0x5F, 0x0F,
     0x9A, 0x62, 0x1D, 0x72, 0x95, 0x66, 0xC7, 0x4D, 0x10, 0x03, 0x7C, 0x4D, 0x7B, 0xBB, 0x04,
     0x07, 0xD1, 0xE2, 0xC6, 0x49, 0x81, 0x80, 0x00, 0x00, 0x00, 0x00, 0x00, 0x00, 0x00, 0x00,
     0x00, 0x00, 0x00, 0x00, 0x00, 0x00, 0x00, 0x00, 0x00, 0x00, 0x00, 0x00, 0x00, 0x00, 0x00,
     0x00, 0x00, 0x00, 0x00, 0x00, 0x01, 0x08]) = [0x52FDFC07, 0x2182654F, 0x163F5F0F,
     0x9A621D72, 0x9566C74D, 0x10037C4D, 0x7BBB0407, 0xD1E2C649, 0x81800000, 0x00000000,
     0x00000000, 0x00000000, 0x00000000, 0x00000000, 0x00000000, 0x00000108]"
  by (simp add: be32_def)

lemma sha_schedule_pk1:
  "sha256_schedule [0x52FDFC07, 0x2182654F, 0x163F5F0F, 0x9A621D72, 0x9566C74D, 0x10037C4D,
     0x7BBB0407, 0xD1E2C649, 0x81800000, 0x00000000, 0x00000000, 0x00000000, 0x00000000,
     0x00000000, 0x00000000, 0x00000108] = [0x52FDFC07, 0x2182654F, 0x163F5F0F, 0x9A621D72,
     0x9566C74D, 0x10037C4D, 0x7BBB0407, 0xD1E2C649, 0x81800000, 0x00000000, 0x00000000,
     0x00000000, 0x00000000, 0x00000000, 0x00000000, 0x00000108, 0x561E7C0A, 0xED4FB61F,
     0x78F5666E, 0x00AEE693, 0xFC7EC2FB, 0x802110AE, 0x6CE68C4C, 0xE396FB03, 0x0684386B,
     0x1BCECE75, 0x9BE8292F, 0xBB71A028, 0x91B5D531, 0x5126230A, 0x43F392BF, 0x5DE1CBB0,
     0xFCFA92DE, 0xF06614C8, 0xEF22E710, 0xB3F01643, 0x8626490D, 0x042FFE98, 0x5DC45CB4,
     0xB9F6E62A, 0xF7992421, 0x00F15F8E, 0x34945C81, 0xCA289AC7, 0xD2078A06, 0x9F4A5BC3,
     0x4C4D9923, 0xC30A76EB, 0x887101DE, 0x2090EFA6, 0xEECB1965, 0x89B374E4, 0xE4423E6F,
     0x9978654B, 0x75599139, 0x94A734BC, 0x5ECD1F9C, 0x80855809, 0x9AD29A44, 0xAAF5F50F,
     0x8BF39203, 0x820A855A, 0xEEB5C134, 0x20678A90]"
  by (simp add: sha256_schedule_def sha256_next_def ssig0_def ssig1_def rotr32_def add32_def)

lemma sha_rounds_pk1:
  "foldl sha256_round H256 (zip K256 [0x52FDFC07, 0x2182654F, 0x163F5F0F, 0x9A621D72, 0x9566C74D,
     0x10037C4D, 0x7BBB0407, 0xD1E2C649, 0x81800000, 0x00000000, 0x00000000, 0x00000000,
     0x00000000, 0x00000000, 0x00000000, 0x00000108, 0x561E7C0A, 0xED4FB61F, 0x78F5666E,
     0x00AEE693, 0xFC7EC2FB, 0x802110AE, 0x6CE68C4C, 0xE396FB03, 0x0684386B, 0x1BCECE75,
     0x9BE8292F, 0xBB71A028, 0x91B5D531, 0x5126230A, 0x43F392BF, 0x5DE1CBB0, 0xFCFA92DE,
     0xF06614C8, 0xEF22E710, 0xB3F01643, 0x8626490D, 0x042FFE98, 0x5DC45CB4, 0xB9F6E62A,
     0xF7992421, 0x00F15F8E, 0x34945C81, 0xCA289AC7, 0xD2078A06, 0x9F4A5BC3, 0x4C4D9923,
     0xC30A76EB, 0x887101DE, 0x2090EFA6, 0xEECB1965, 0x89B374E4, 0xE4423E6F, 0x9978654B,
     0x75599139, 0x94A734BC, 0x5ECD1F9C, 0x80855809, 0x9AD29A44, 0xAAF5F50F, 0x8BF39203,
     0x820A855A, 0xEEB5C134, 0x20678A90]) = [0x100BFD5A, 0x66FE3765, 0x4F9D262C, 0xEDAA4D20,
     0x5334BFAB, 0xD4A07632, 0x36AF17FD, 0x6462A4FD]"
  by (simp add: H256_def K256_def bsig0_def bsig1_def sha256_ch_def sha256_maj_def rotr32_def add32_def
      not32_def)

lemma sha_sum_pk1:
  "map2 add32 H256 [0x100BFD5A, 0x66FE3765, 0x4F9D262C, 0xEDAA4D20, 0x5334BFAB, 0xD4A07632,
     0x36AF17FD, 0x6462A4FD] = [0x7A15E3C1, 0x2265E5EA, 0x8C0C199E, 0x92FA425A, 0xA443122A,
     0x6FA5DEBE, 0x5632F1A8, 0xC0437216]"
  by (simp add: H256_def add32_def)

lemma sha_compress_pk1:
  "sha256_compress H256 [0x52, 0xFD, 0xFC, 0x07, 0x21, 0x82, 0x65, 0x4F, 0x16, 0x3F, 0x5F, 0x0F,
     0x9A, 0x62, 0x1D, 0x72, 0x95, 0x66, 0xC7, 0x4D, 0x10, 0x03, 0x7C, 0x4D, 0x7B, 0xBB, 0x04,
     0x07, 0xD1, 0xE2, 0xC6, 0x49, 0x81, 0x80, 0x00, 0x00, 0x00, 0x00, 0x00, 0x00, 0x00, 0x00,
     0x00, 0x00, 0x00, 0x00, 0x00, 0x00, 0x00, 0x00, 0x00, 0x00, 0x00, 0x00, 0x00, 0x00, 0x00,
     0x00, 0x00, 0x00, 0x00, 0x00, 0x01, 0x08] = [0x7A15E3C1, 0x2265E5EA, 0x8C0C199E,
     0x92FA425A, 0xA443122A, 0x6FA5DEBE, 0x5632F1A8, 0xC0437216]"
  by (simp only: sha256_compress_def sha_words_pk1 sha_schedule_pk1 sha_rounds_pk1 sha_sum_pk1)

lemma sha_bytes_pk1:
  "concat (map be_bytes4 [0x7A15E3C1, 0x2265E5EA, 0x8C0C199E, 0x92FA425A, 0xA443122A, 0x6FA5DEBE,
     0x5632F1A8, 0xC0437216]) = [0x7A, 0x15, 0xE3, 0xC1, 0x22, 0x65, 0xE5, 0xEA, 0x8C, 0x0C,
     0x19, 0x9E, 0x92, 0xFA, 0x42, 0x5A, 0xA4, 0x43, 0x12, 0x2A, 0x6F, 0xA5, 0xDE, 0xBE, 0x56,
     0x32, 0xF1, 0xA8, 0xC0, 0x43, 0x72, 0x16]"
  by (simp add: be_bytes4_def)

lemma sha256_pk1:
  "sha256 [0x52, 0xFD, 0xFC, 0x07, 0x21, 0x82, 0x65, 0x4F, 0x16, 0x3F, 0x5F, 0x0F, 0x9A, 0x62,
     0x1D, 0x72, 0x95, 0x66, 0xC7, 0x4D, 0x10, 0x03, 0x7C, 0x4D, 0x7B, 0xBB, 0x04, 0x07, 0xD1,
     0xE2, 0xC6, 0x49, 0x81] = [0x7A, 0x15, 0xE3, 0xC1, 0x22, 0x65, 0xE5, 0xEA, 0x8C, 0x0C,
     0x19, 0x9E, 0x92, 0xFA, 0x42, 0x5A, 0xA4, 0x43, 0x12, 0x2A, 0x6F, 0xA5, 0xDE, 0xBE, 0x56,
     0x32, 0xF1, 0xA8, 0xC0, 0x43, 0x72, 0x16]"
  by (simp only: sha256_def sha_pad_pk1 sha_blocks_pk1 foldl.simps sha_compress_pk1 sha_bytes_pk1)

lemma rmd_pad_pk1:
  "md_pad le_bytes8 [0x7A, 0x15, 0xE3, 0xC1, 0x22, 0x65, 0xE5, 0xEA, 0x8C, 0x0C, 0x19, 0x9E, 0x92,
     0xFA, 0x42, 0x5A, 0xA4, 0x43, 0x12, 0x2A, 0x6F, 0xA5, 0xDE, 0xBE, 0x56, 0x32, 0xF1, 0xA8,
     0xC0, 0x43, 0x72, 0x16] = [0x7A, 0x15, 0xE3, 0xC1, 0x22, 0x65, 0xE5, 0xEA, 0x8C, 0x0C,
     0x19, 0x9E, 0x92, 0xFA, 0x42, 0x5A, 0xA4, 0x43, 0x12, 0x2A, 0x6F, 0xA5, 0xDE, 0xBE, 0x56,
     0x32, 0xF1, 0xA8, 0xC0, 0x43, 0x72, 0x16, 0x80, 0x00, 0x00, 0x00, 0x00, 0x00, 0x00, 0x00,
     0x00, 0x00, 0x00, 0x00, 0x00, 0x00, 0x00, 0x00, 0x00, 0x00, 0x00, 0x00, 0x00, 0x00, 0x00,
     0x00, 0x00, 0x01, 0x00, 0x00, 0x00, 0x00, 0x00, 0x00]"
  by (simp add: md_pad_def le_bytes8_def be_bytes8_def replicate_numeral)

lemma rmd_blocks_pk1:
  "chunks 64 [0x7A, 0x15, 0xE3, 0xC1, 0x22, 0x65, 0xE5, 0xEA, 0x8C, 0x0C, 0x19, 0x9E, 0x92, 0xFA,
     0x42, 0x5A, 0xA4, 0x43, 0x12, 0x2A, 0x6F, 0xA5, 0xDE, 0xBE, 0x56, 0x32, 0xF1, 0xA8, 0xC0,
     0x43, 0x72, 0x16, 0x80, 0x00, 0x00, 0x00, 0x00, 0x00, 0x00, 0x00, 0x00, 0x00, 0x00, 0x00,
     0x00, 0x00, 0x00, 0x00, 0x00, 0x00, 0x00, 0x00, 0x00, 0x00, 0x00, 0x00, 0x00, 0x01, 0x00,
     0x00, 0x00, 0x00, 0x00, 0x00] = [[0x7A, 0x15, 0xE3, 0xC1, 0x22, 0x65, 0xE5, 0xEA, 0x8C,
     0x0C, 0x19, 0x9E, 0x92, 0xFA, 0x42, 0x5A, 0xA4, 0x43, 0x12, 0x2A, 0x6F, 0xA5, 0xDE, 0xBE,
     0x56, 0x32, 0xF1, 0xA8, 0xC0, 0x43, 0x72, 0x16, 0x80, 0x00, 0x00, 0x00, 0x00, 0x00, 0x00,
     0x00, 0x00, 0x00, 0x00, 0x00, 0x00, 0x00, 0x00, 0x00, 0x00, 0x00, 0x00, 0x00, 0x00, 0x00,
     0x00, 0x00, 0x00, 0x01, 0x00, 0x00, 0x00, 0x00, 0x00, 0x00]]"
  by simp

lemma rmd_words_pk1:
  "map le32 (chunks 4 [0x7A, 0x15, 0xE3, 0xC1, 0x22, 0x65, 0xE5, 0xEA, 0x8C, 0x0C, 0x19, 0x9E,
     0x92, 0xFA, 0x42, 0x5A, 0xA4, 0x43, 0x12, 0x2A, 0x6F, 0xA5, 0xDE, 0xBE, 0x56, 0x32, 0xF1,
     0xA8, 0xC0, 0x43, 0x72, 0x16, 0x80, 0x00, 0x00, 0x00, 0x00, 0x00, 0x00, 0x00, 0x00, 0x00,
     0x00, 0x00, 0x00, 0x00, 0x00, 0x00, 0x00, 0x00, 0x00, 0x00, 0x00, 0x00, 0x00, 0x00, 0x00,
     0x01, 0x00, 0x00, 0x00, 0x00, 0x00, 0x00]) = [0xC1E3157A, 0xEAE56522, 0x9E190C8C,
     0x5A42FA92, 0x2A1243A4, 0xBEDEA56F, 0xA8F13256, 0x167243C0, 0x00000080, 0x00000000,
     0x00000000, 0x00000000, 0x00000000, 0x00000000, 0x00000100, 0x00000000]"
  by (simp add: le32_def)

lemma rmd_left_pk1:
  "foldl (rmd_left [0xC1E3157A, 0xEAE56522, 0x9E190C8C, 0x5A42FA92, 0x2A1243A4, 0xBEDEA56F,
     0xA8F13256, 0x167243C0, 0x00000080, 0x00000000, 0x00000000, 0x00000000, 0x00000000,
     0x00000000, 0x00000100, 0x00000000]) rmd_H [0..<80] = [0xB999B8D1, 0x1CE82F58, 0x9919507B,
     0x83108377, 0x41616EBE]"
  by (simp add: upt_0 upt_Suc_0 rmd_H_def rmd_f_def rmd_KL_def rmd_RL_def rmd_SL_def rotl32_def
      add32_def not32_def)

lemma rmd_right_pk1:
  "foldl (rmd_right [0xC1E3157A, 0xEAE56522, 0x9E190C8C, 0x5A42FA92, 0x2A1243A4, 0xBEDEA56F,
     0xA8F13256, 0x167243C0, 0x00000080, 0x00000000, 0x00000000, 0x00000000, 0x00000000,
     0x00000000, 0x00000100, 0x00000000]) rmd_H [0..<80] = [0xEAB3718E, 0xDC4697E4, 0xE7F171A0,
     0xCC2E4960, 0x21C0A6E2]"
  by (simp add: upt_0 upt_Suc_0 rmd_H_def rmd_f_def rmd_KR_def rmd_RR_def rmd_SR_def rotl32_def
      add32_def not32_def)

lemma rmd_combine_pk1:
  "rmd_combine rmd_H [0xB999B8D1, 0x1CE82F58, 0x9919507B, 0x83108377, 0x41616EBE] [0xEAB3718E,
     0xDC4697E4, 0xE7F171A0, 0xCC2E4960, 0x21C0A6E2] = [0x55154564, 0x3D8C0757, 0x3C4734C2,
     0x59B332A5, 0x6C1EC3F9]"
  by (simp add: rmd_H_def add32_def)

lemma rmd_compress_pk1:
  "rmd_compress rmd_H [0x7A, 0x15, 0xE3, 0xC1, 0x22, 0x65, 0xE5, 0xEA, 0x8C, 0x0C, 0x19, 0x9E,
     0x92, 0xFA, 0x42, 0x5A, 0xA4, 0x43, 0x12, 0x2A, 0x6F, 0xA5, 0xDE, 0xBE, 0x56, 0x32, 0xF1,
     0xA8, 0xC0, 0x43, 0x72, 0x16, 0x80, 0x00, 0x00, 0x00, 0x00, 0x00, 0x00, 0x00, 0x00, 0x00,
     0x00, 0x00, 0x00, 0x00, 0x00, 0x00, 0x00, 0x00, 0x00, 0x00, 0x00, 0x00, 0x00, 0x00, 0x00,
     0x01, 0x00, 0x00, 0x00, 0x00, 0x00, 0x00] = [0x55154564, 0x3D8C0757, 0x3C4734C2,
     0x59B332A5, 0x6C1EC3F9]"
  by (simp only: rmd_compress_def rmd_lines_def rmd_words_pk1 rmd_left_pk1 rmd_right_pk1
      rmd_combine_pk1)

lemma rmd_bytes_pk1:
  "concat (map le_bytes4 [0x55154564, 0x3D8C0757, 0x3C4734C2, 0x59B332A5, 0x6C1EC3F9]) = [0x64,
     0x45, 0x15, 0x55, 0x57, 0x07, 0x8C, 0x3D, 0xC2, 0x34, 0x47, 0x3C, 0xA5, 0x32, 0xB3, 0x59,
     0xF9, 0xC3, 0x1E, 0x6C]"
  by (simp add: le_bytes4_def be_bytes4_def)

lemma ripemd160_pk1:
  "ripemd160 [0x7A, 0x15, 0xE3, 0xC1, 0x22, 0x65, 0xE5, 0xEA, 0x8C, 0x0C, 0x19, 0x9E, 0x92, 0xFA,
     0x42, 0x5A, 0xA4, 0x43, 0x12, 0x2A, 0x6F, 0xA5, 0xDE, 0xBE, 0x56, 0x32, 0xF1, 0xA8, 0xC0,
     0x43, 0x72, 0x16] = [0x64, 0x45, 0x15, 0x55, 0x57, 0x07, 0x8C, 0x3D, 0xC2, 0x34, 0x47,
     0x3C, 0xA5, 0x32, 0xB3, 0x59, 0xF9, 0xC3, 0x1E, 0x6C]"
  by (simp only: ripemd160_def rmd_pad_pk1 rmd_blocks_pk1 foldl.simps rmd_compress_pk1 rmd_bytes_pk1)

lemma toWords_pk1:
  "toWords [0x64, 0x45, 0x15, 0x55, 0x57, 0x07, 0x8C, 0x3D, 0xC2, 0x34, 0x47, 0x3C, 0xA5, 0x32,
     0xB3, 0x59, 0xF9, 0xC3, 0x1E, 0x6C] = [12, 17, 2, 17, 10, 21, 10, 23, 0, 30, 6, 3, 27, 16,
     17, 20, 8, 28, 30, 10, 10, 12, 21, 19, 11, 7, 28, 28, 6, 7, 19, 12]"
  by (simp add: toWords_def bits8_def group_value_def)

lemma checksum_pk1:
  "bech32_checksum ''cosmos'' [12, 17, 2, 17, 10, 21, 10, 23, 0, 30, 6, 3, 27, 16, 17, 20, 8, 28,
     30, 10, 10, 12, 21, 19, 11, 7, 28, 28, 6, 7, 19, 12] = [28, 8, 20, 8, 4, 25]"
  by (simp add: bech32_checksum_def bech32_hrp_expand_def bech32_polymod_def polymod_step_def
      polymod_mix_def bech32_GEN_def checksum_digits_def)

lemma bech32_pk1:
  "bech32_encode ''cosmos'' [12, 17, 2, 17, 10, 21, 10, 23, 0, 30, 6, 3, 27, 16, 17, 20, 8, 28, 30,
     10, 10, 12, 21, 19, 11, 7, 28, 28, 6, 7, 19, 12] =
     ''cosmos1v3z3242hq7xrms35gu722v4nt8uux8nvug5gye''"
  by (simp add: bech32_encode_def checksum_pk1 bech32_CHARSET_def)

lemma unat_pk1:
  "map unat ([0x52, 0xFD, 0xFC, 0x07, 0x21, 0x82, 0x65, 0x4F, 0x16, 0x3F, 0x5F, 0x0F, 0x9A, 0x62,
     0x1D, 0x72, 0x95, 0x66, 0xC7, 0x4D, 0x10, 0x03, 0x7C, 0x4D, 0x7B, 0xBB, 0x04, 0x07, 0xD1,
     0xE2, 0xC6, 0x49, 0x81] :: bytes) = [0x52, 0xFD, 0xFC, 0x07, 0x21, 0x82, 0x65, 0x4F, 0x16,
     0x3F, 0x5F, 0x0F, 0x9A, 0x62, 0x1D, 0x72, 0x95, 0x66, 0xC7, 0x4D, 0x10, 0x03, 0x7C, 0x4D,
     0x7B, 0xBB, 0x04, 0x07, 0xD1, 0xE2, 0xC6, 0x49, 0x81]"
  by simp

lemma getCosmosAddress_pk1:
  "getCosmosAddress [0x52, 0xFD, 0xFC, 0x07, 0x21, 0x82, 0x65, 0x4F, 0x16, 0x3F, 0x5F, 0x0F, 0x9A,
     0x62, 0x1D, 0x72, 0x95, 0x66, 0xC7, 0x4D, 0x10, 0x03, 0x7C, 0x4D, 0x7B, 0xBB, 0x04, 0x07,
     0xD1, 0xE2, 0xC6, 0x49, 0x81] = ''cosmos1v3z3242hq7xrms35gu722v4nt8uux8nvug5gye''"
  by (simp only: getCosmosAddress_def unat_pk1 sha256_pk1 ripemd160_pk1 toWords_pk1 bech32_pk1)

section \<open>The claims\<close>

text \<open>
  C1. When \<^verbatim>\<open>storeWallet(wallet, name, password)\<close> succeeds, \<^verbatim>\<open>getStoredWallet\<close>
  with the wallet's address and the same password returns the wallet (the value
  \<^verbatim>\<open>JSON.parse\<close> builds for it), provided \<^verbatim>\<open>JSON.parse\<close>, \<^verbatim>\<open>Hex.parse\<close> and
  \<^verbatim>\<open>AES.decrypt\<close> invert \<^verbatim>\<open>JSON.stringify\<close>, the hex rendering and \<^verbatim>\<open>AES.encrypt\<close>.
\<close>

theorem store_then_load:
  assumes "JSON_faithful env" and "Hex_faithful env" and "AES_faithful env"
    and "storeWallet env wallet name password w = (Inr (), w')"
  shows "getStoredWallet env (cosmosAddress wallet) password w' = (Inr (Wallet_json wallet), w')"
proof -
  let ?a = "cosmosAddress wallet"
  let ?m = "JSON_stringify env (Wallet_json wallet)"
  let ?c = "fst (encrypt env ?m password w)"
  let ?t = "JSON_stringify env (StoredWallet_json name ?a ?c)"
  obtain w3 where w': "w' = setItem (KEY_TAG @ ''-'' @ ?a) ?t w3"
    using storeWallet_InrD [OF assms(4)] by blast
  have "JSON_parse env ?t = Some (StoredWallet_json name ?a ?c)" and "JSON_parse env [] = None"
    using assms(1) by (simp_all add: JSON_faithful_def)
  then have load: "loadFromStorage env ?a w' = (Inr (StoredWallet_json name ?a ?c), w')"
    unfolding w' by (rule loadFromStorage_setItem)
  have "decrypt env ?c password = Some ?m"
    using assms(2,3) by (rule decrypt_encrypt)
  moreover have "JSON_parse env ?m = Some (Wallet_json wallet)"
    using assms(1) by (simp add: JSON_faithful_def)
  ultimately have "try_decrypt env (StoredWallet_json name ?a ?c) password = Some (Wallet_json wallet)"
    by (simp add: try_decrypt_def StoredWallet_json_def)
  then show ?thesis using load
    by (simp add: getStoredWallet_def StoredWallet_json_def)
qed



theorem store_then_load_witness:
  "JSON_faithful sample_env \<and> Hex_faithful sample_env \<and> AES_faithful sample_env
   \<and> storeWallet sample_env sample_wallet ''main'' ''a'' empty_world = (Inr (), stored_world)
   \<and> getStoredWallet sample_env (cosmosAddress sample_wallet) ''a'' stored_world
        = (Inr (Wallet_json sample_wallet), stored_world)"
  using store_then_load [OF sample_env_JSON sample_env_Hex sample_env_AES storeWallet_sample]
    sample_env_JSON sample_env_Hex sample_env_AES storeWallet_sample
  by simp

text \<open>
  C2, as amended. For an entry that \<^verbatim>\<open>loadFromStorage\<close> finds and a password under which
  the body of the \<^verbatim>\<open>try\<close> fails (the entry has no text \<^verbatim>\<open>wallet\<close>, the decryption
  throws, or its output is not JSON; \<open>try_decrypt_None_iff\<close>), \<^verbatim>\<open>getStoredWallet\<close>
  fails with \<^verbatim>\<open>Incorrect password\<close>, \<^verbatim>\<open>testPassword\<close> and \<^verbatim>\<open>removeWallet\<close> fail with
  \<^verbatim>\<open>Password for wallet is incorrect\<close>, none returns a value and the state is unchanged.
  These errors differ from the two not-found errors (\<open>not_found\<close>) and from the
  errors of the runtime.
\<close>

theorem unreadable_is_incorrect_password:
  assumes "fst (loadFromStorage env address w) = Inr storedWallet" and "truthy storedWallet"
    and "try_decrypt env storedWallet password = None"
  shows "getStoredWallet env address password w = (Inl (Error ''Incorrect password''), w)
       \<and> testPassword env address password w = (Inl (Error ''Password for wallet is incorrect''), w)
       \<and> removeWallet env address password w = (Inl (Error ''Password for wallet is incorrect''), w)
       \<and> Error ''Incorrect password'' \<noteq> Error ''No wallet found for requested address''
       \<and> Error ''Password for wallet is incorrect'' \<noteq> Error ''No wallet found for request address''
       \<and> Error ''Password for wallet is incorrect'' \<noteq> Error ''No wallet found for requested address''
       \<and> Error ''Incorrect password'' \<noteq> SyntaxError \<and> Error ''Incorrect password'' \<noteq> TypeError
       \<and> Error ''Password for wallet is incorrect'' \<noteq> SyntaxError
       \<and> Error ''Password for wallet is incorrect'' \<noteq> TypeError"
  using assms
  by (simp add: getStoredWallet_eq [OF assms(1,2)] testPassword_eq [OF assms(1,2)]
      removeWallet_eq [OF assms(1,2)])

theorem unreadable_is_incorrect_password_witness:
  "fst (loadFromStorage sample_env (cosmosAddress sample_wallet) stored_world) =
      Inr (StoredWallet_json ''main'' (cosmosAddress sample_wallet)
          (fst (encrypt sample_env (show_json (Wallet_json sample_wallet)) ''a'' empty_world)))
   \<and> truthy (StoredWallet_json ''main'' (cosmosAddress sample_wallet)
          (fst (encrypt sample_env (show_json (Wallet_json sample_wallet)) ''a'' empty_world)))
   \<and> try_decrypt sample_env
        (StoredWallet_json ''main'' (cosmosAddress sample_wallet)
          (fst (encrypt sample_env (show_json (Wallet_json sample_wallet)) ''a'' empty_world))) ''b'' = None
   \<and> getStoredWallet sample_env (cosmosAddress sample_wallet) ''b'' stored_world =
        (Inl (Error ''Incorrect password''), stored_world)
   \<and> testPassword sample_env (cosmosAddress sample_wallet) ''b'' stored_world =
        (Inl (Error ''Password for wallet is incorrect''), stored_world)
   \<and> removeWallet sample_env (cosmosAddress sample_wallet) ''b'' stored_world =
        (Inl (Error ''Password for wallet is incorrect''), stored_world)"
proof -
  have t: "truthy (StoredWallet_json ''main'' (cosmosAddress sample_wallet)
          (fst (encrypt sample_env (show_json (Wallet_json sample_wallet)) ''a'' empty_world)))"
    by (simp add: StoredWallet_json_def)
  show ?thesis
    using unreadable_is_incorrect_password [OF load_stored_world t try_decrypt_stored_b]
      load_stored_world t try_decrypt_stored_b
    by simp
qed

text \<open>
  C2, as stated, fails: nothing but the success of \<^verbatim>\<open>JSON.parse\<close> on the decrypted text
  tells a right password from a wrong one. In the sample runtime, as with the HMAC of
  PBKDF2, the password \<^verbatim>\<open>a\<close> and the password \<^verbatim>\<open>a\<close> followed by a zero character derive
  the same key: the wallet stored under the first is returned under the second.
\<close>

theorem other_password_accepted:
  "storeWallet sample_env sample_wallet ''main'' ''a'' empty_world = (Inr (), stored_world)
   \<and> [CHR ''a'', CHR 0x00] \<noteq> ''a''
   \<and> getStoredWallet sample_env (cosmosAddress sample_wallet) [CHR ''a'', CHR 0x00] stored_world =
        (Inr (Wallet_json sample_wallet), stored_world)
   \<and> testPassword sample_env (cosmosAddress sample_wallet) [CHR ''a'', CHR 0x00] stored_world =
        (Inr (), stored_world)"
proof -
  have t: "truthy (StoredWallet_json ''main'' (cosmosAddress sample_wallet)
          (fst (encrypt sample_env (show_json (Wallet_json sample_wallet)) ''a'' empty_world)))"
    by (simp add: StoredWallet_json_def)
  show ?thesis
    using storeWallet_sample try_decrypt_stored_a0
    by (simp add: getStoredWallet_eq [OF load_stored_world t] testPassword_eq [OF load_stored_world t])
qed

text \<open>
  C3, as amended. When \<^verbatim>\<open>JSON.parse\<close> reads back what the module writes, the
  invariant \<open>store_consistent\<close> holds for the empty store and still holds after every
  execution, successful or failing, of \<^verbatim>\<open>storeWallet\<close> (for a wallet whose address is not
  the text \<^verbatim>\<open>index\<close>), \<^verbatim>\<open>removeWallet\<close>, \<^verbatim>\<open>getStoredWallet\<close> and \<^verbatim>\<open>testPassword\<close>;
  and it implies the invariant of the specification: unique names, every stored
  wallet's address exactly once in the index, at most one stored wallet per address.
\<close>

theorem store_consistent_preserved:
  assumes "JSON_faithful env"
  shows "(localStorage w0 = Map.empty \<longrightarrow> store_consistent env w0)
       \<and> (store_consistent env w \<and> cosmosAddress wallet \<noteq> ''index'' \<longrightarrow>
            store_consistent env (snd (storeWallet env wallet name password w)))
       \<and> (store_consistent env w \<longrightarrow>
            store_consistent env (snd (removeWallet env address password w)))
       \<and> (store_consistent env w \<longrightarrow>
            store_consistent env (snd (getStoredWallet env address password w)))
       \<and> (store_consistent env w \<longrightarrow>
            store_consistent env (snd (testPassword env address password w)))
       \<and> (store_consistent env w \<longrightarrow> store_invariant env w)"
  using assms store_consistent_empty [OF JSON_faithfulD(2) [OF assms]]
    store_consistent_storeWallet [OF assms] store_consistent_removeWallet [OF assms]
    store_consistent_invariant
  by (simp add: snd_getStoredWallet snd_testPassword)

theorem store_consistent_preserved_witness:
  "JSON_faithful sample_env
   \<and> localStorage empty_world = Map.empty
   \<and> store_consistent sample_env empty_world
   \<and> cosmosAddress sample_wallet \<noteq> ''index''
   \<and> store_consistent sample_env stored_world
   \<and> store_consistent sample_env removed_world
   \<and> store_consistent sample_env
        (snd (getStoredWallet sample_env (cosmosAddress sample_wallet) ''a'' stored_world))
   \<and> store_consistent sample_env
        (snd (testPassword sample_env (cosmosAddress sample_wallet) ''b'' stored_world))
   \<and> store_invariant sample_env stored_world"
proof -
  have e: "localStorage empty_world = Map.empty" by (simp add: empty_world_def)
  have a: "cosmosAddress sample_wallet \<noteq> ''index''" by (simp add: sample_wallet_def)
  have 0: "store_consistent sample_env empty_world"
    using store_consistent_preserved [OF sample_env_JSON, where ?w0.0 = empty_world] e by blast
  have 1: "store_consistent sample_env stored_world"
    using store_consistent_preserved [OF sample_env_JSON, where w = empty_world
        and wallet = sample_wallet and name = "''main''" and password = "''a''"] 0 a
    unfolding stored_world_def by blast
  have 2: "store_consistent sample_env removed_world"
    using store_consistent_preserved [OF sample_env_JSON, where w = stored_world
        and address = "cosmosAddress sample_wallet" and password = "''a''"] 1
    unfolding removed_world_def by blast
  have 3: "store_consistent sample_env
        (snd (getStoredWallet sample_env (cosmosAddress sample_wallet) ''a'' stored_world))"
    using store_consistent_preserved [OF sample_env_JSON, where w = stored_world
        and address = "cosmosAddress sample_wallet" and password = "''a''"] 1
    by blast
  have 4: "store_consistent sample_env
        (snd (testPassword sample_env (cosmosAddress sample_wallet) ''b'' stored_world))"
    using store_consistent_preserved [OF sample_env_JSON, where w = stored_world
        and address = "cosmosAddress sample_wallet" and password = "''b''"] 1
    by blast
  have 5: "store_invariant sample_env stored_world"
    using store_consistent_preserved [OF sample_env_JSON, where w = stored_world] 1 by blast
  show ?thesis using sample_env_JSON e a 0 1 2 3 4 5 by simp
qed

text \<open>
  C3, as stated, fails: the invariant of the specification alone is not kept.
  \<^verbatim>\<open>addToIndex\<close> looks for the name only, so on a store whose index already names the
  address, without a wallet entry for it, \<^verbatim>\<open>storeWallet\<close> succeeds and the address
  appears twice in the index.
\<close>

theorem store_invariant_not_preserved:
  "store_invariant sample_env dangling_world
   \<and> fst (storeWallet sample_env sample_wallet ''main'' ''a'' dangling_world) = Inr ()
   \<and> \<not> store_invariant sample_env
        (snd (storeWallet sample_env sample_wallet ''main'' ''a'' dangling_world))"
proof -
  let ?a = "cosmosAddress sample_wallet"
  let ?w' = "snd (storeWallet sample_env sample_wallet ''main'' ''a'' dangling_world)"
  let ?c = "fst (encrypt sample_env (JSON_stringify sample_env (Wallet_json sample_wallet)) ''a'' dangling_world)"
  have addr: "?a \<noteq> ''index''" by (simp add: sample_wallet_def)
  have "localStorage ?w' (KEY_TAG @ ''-index'') =
      Some (JSON_stringify sample_env (JArr (map IndexEntry_json [(''old'', ?a), (''main'', ?a)])))"
    using addr by (simp add: storeWallet_dangling_world localStorage_setItem)
  then have idx: "fst (getWalletIndex sample_env ?w') =
      Inr (JArr (map IndexEntry_json [(''old'', ?a), (''main'', ?a)]))"
    using getWalletIndex_written JSON_faithfulD(1,5) [OF sample_env_JSON] by blast
  have "localStorage ?w' (KEY_TAG @ ''-'' @ ?a) =
      Some (JSON_stringify sample_env (StoredWallet_json ''main'' ?a ?c))"
    by (simp add: storeWallet_dangling_world localStorage_setItem)
  then have entry: "wallet_entry sample_env ?w' ?a = Some (StoredWallet_json ''main'' ?a ?c)"
    using wallet_entry_written JSON_faithfulD(1,4) [OF sample_env_JSON] by blast
  have "\<not> store_invariant sample_env ?w'"
  proof
    assume "store_invariant sample_env ?w'"
    then obtain es where es: "fst (getWalletIndex sample_env ?w') = Inr (JArr (map IndexEntry_json es))"
      "\<forall>k n a c. wallet_entry sample_env ?w' k = Some (StoredWallet_json n a c) \<longrightarrow>
               count_list (map snd es) a = 1"
      unfolding store_invariant_def by blast
    have "es = [(''old'', ?a), (''main'', ?a)]"
      using es(1) idx by (simp only: sum.inject json.inject map_IndexEntry_json_eq)
    moreover have "count_list (map snd es) ?a = 1" using es(2) entry by blast
    ultimately show False by simp
  qed
  then show ?thesis
    using store_invariant_dangling_world by (simp add: storeWallet_dangling_world)
qed

text \<open>
  C4. \<^verbatim>\<open>storeWallet\<close> called with an address for which \<^verbatim>\<open>loadFromStorage\<close> finds an
  entry fails with the error of a wallet already stored, and the state is the one before
  the call. Called with an address that has no entry and a name that an entry of the
  index has, it fails with the error of a name already in use, and \<^verbatim>\<open>localStorage\<close>
  (wallet entries and index) is the one before the call.
\<close>

theorem storeWallet_refuses_duplicates:
  "(fst (loadFromStorage env (cosmosAddress wallet) w) = Inr storedWallet \<and> truthy storedWallet \<longrightarrow>
      storeWallet env wallet name password w =
        (Inl (Error ''The wallet was already stored. Can't store the same wallet again.''), w))
   \<and> (fst (loadFromStorage env (cosmosAddress wallet') w) = Inr storedWallet' \<and> \<not> truthy storedWallet'
        \<and> fst (getWalletIndex env w) = Inr (JArr (map IndexEntry_json es)) \<and> name' \<in> fst ` set es \<longrightarrow>
      fst (storeWallet env wallet' name' password' w) = Inl (Error ''Key with that name already exists'')
      \<and> localStorage (snd (storeWallet env wallet' name' password' w)) = localStorage w)"
proof (intro conjI impI)
  assume "fst (loadFromStorage env (cosmosAddress wallet) w) = Inr storedWallet \<and> truthy storedWallet"
  then show "storeWallet env wallet name password w =
        (Inl (Error ''The wallet was already stored. Can't store the same wallet again.''), w)"
    using storeWallet_stored by blast
next
  assume h: "fst (loadFromStorage env (cosmosAddress wallet') w) = Inr storedWallet' \<and> \<not> truthy storedWallet'
        \<and> fst (getWalletIndex env w) = Inr (JArr (map IndexEntry_json es)) \<and> name' \<in> fst ` set es"
  then obtain x where x: "find_name name' (map IndexEntry_json es) = Inr (Some x)"
    using find_name_entries_Some by blast
  have eq: "storeWallet env wallet' name' password' w =
           (Inl (Error ''Key with that name already exists''),
            snd (encrypt env (JSON_stringify env (Wallet_json wallet')) password' w))"
    using h x storeWallet_taken by blast
  show "fst (storeWallet env wallet' name' password' w) = Inl (Error ''Key with that name already exists'')"
    by (simp add: eq)
  show "localStorage (snd (storeWallet env wallet' name' password' w)) = localStorage w"
    by (simp add: eq localStorage_encrypt)
qed

theorem storeWallet_refuses_duplicates_witness:
  "fst (loadFromStorage sample_env (cosmosAddress sample_wallet) stored_world) =
      Inr (StoredWallet_json ''main'' (cosmosAddress sample_wallet)
          (fst (encrypt sample_env (show_json (Wallet_json sample_wallet)) ''a'' empty_world)))
   \<and> truthy (StoredWallet_json ''main'' (cosmosAddress sample_wallet)
          (fst (encrypt sample_env (show_json (Wallet_json sample_wallet)) ''a'' empty_world)))
   \<and> storeWallet sample_env sample_wallet ''second'' ''b'' stored_world =
        (Inl (Error ''The wallet was already stored. Can't store the same wallet again.''), stored_world)
   \<and> fst (loadFromStorage sample_env (cosmosAddress other_wallet) stored_world) = Inr JNull
   \<and> \<not> truthy JNull
   \<and> fst (getWalletIndex sample_env stored_world) =
        Inr (JArr (map IndexEntry_json [(''main'', cosmosAddress sample_wallet)]))
   \<and> ''main'' \<in> fst ` set [(''main'', cosmosAddress sample_wallet)]
   \<and> fst (storeWallet sample_env other_wallet ''main'' ''b'' stored_world) =
        Inl (Error ''Key with that name already exists'')
   \<and> localStorage (snd (storeWallet sample_env other_wallet ''main'' ''b'' stored_world)) =
        localStorage stored_world"
  using storeWallet_refuses_duplicates [of sample_env sample_wallet stored_world
      "StoredWallet_json ''main'' (cosmosAddress sample_wallet)
          (fst (encrypt sample_env (show_json (Wallet_json sample_wallet)) ''a'' empty_world))"
      "''second''" "''b''" other_wallet JNull "[(''main'', cosmosAddress sample_wallet)]" "''main''" "''b''"]
    load_stored_world index_stored_world load_other_stored_world
  by (simp add: StoredWallet_json_def)

text \<open>
  C5, as amended. \<^verbatim>\<open>removeWallet\<close> fails with the not-found error when
  \<^verbatim>\<open>loadFromStorage\<close> finds no entry, and with \<^verbatim>\<open>Password for wallet is incorrect\<close> when
  the entry does not decrypt to JSON under the password; in both cases the state is the
  one before the call. When it succeeds, \<^verbatim>\<open>testPassword\<close> succeeds on the state before
  the call, and the state after it is that state with the index rewritten without the
  entries of the address, and then the wallet entry removed.
\<close>

theorem removeWallet_checks_then_deletes:
  "(fst (loadFromStorage env address w) = Inr storedWallet \<and> \<not> truthy storedWallet \<longrightarrow>
      removeWallet env address password w = (Inl (Error ''No wallet found for requested address''), w))
   \<and> (fst (loadFromStorage env address w) = Inr storedWallet \<and> truthy storedWallet
        \<and> try_decrypt env storedWallet password = None \<longrightarrow>
      removeWallet env address password w = (Inl (Error ''Password for wallet is incorrect''), w))
   \<and> (removeWallet env address password w = (Inr (), w') \<longrightarrow>
      testPassword env address password w = (Inr (), w)
      \<and> (\<exists>xs. fst (getWalletIndex env w) = Inr (JArr xs)
            \<and> w' = removeItem (KEY_TAG @ ''-'' @ address)
                   (setItem (KEY_TAG @ ''-index'')
                      (JSON_stringify env
                         (JArr (filter (\<lambda>x. member x ''address'' \<noteq> Some (JStr address)) xs))) w)))"
proof (intro conjI impI)
  assume "fst (loadFromStorage env address w) = Inr storedWallet \<and> \<not> truthy storedWallet"
  then show "removeWallet env address password w = (Inl (Error ''No wallet found for requested address''), w)"
    using not_found(3) by blast
next
  assume h: "fst (loadFromStorage env address w) = Inr storedWallet \<and> truthy storedWallet
        \<and> try_decrypt env storedWallet password = None"
  then show "removeWallet env address password w = (Inl (Error ''Password for wallet is incorrect''), w)"
    using removeWallet_eq [of env address w storedWallet password] by simp
next
  assume h: "removeWallet env address password w = (Inr (), w')"
  then obtain sw wallet where sw: "fst (loadFromStorage env address w) = Inr sw" "truthy sw"
      "try_decrypt env sw password = Some wallet" "removeFromStorage env address w = (Inr (), w')"
    using removeWallet_InrD by blast
  show "testPassword env address password w = (Inr (), w)"
    using sw by (simp add: testPassword_eq [OF sw(1,2)])
  show "\<exists>xs. fst (getWalletIndex env w) = Inr (JArr xs)
            \<and> w' = removeItem (KEY_TAG @ ''-'' @ address)
                   (setItem (KEY_TAG @ ''-index'')
                      (JSON_stringify env
                         (JArr (filter (\<lambda>x. member x ''address'' \<noteq> Some (JStr address)) xs))) w)"
    using removeFromStorage_InrD [OF sw(4)] by blast
qed

theorem removeWallet_checks_then_deletes_witness:
  "fst (loadFromStorage sample_env (cosmosAddress other_wallet) stored_world) = Inr JNull
   \<and> \<not> truthy JNull
   \<and> removeWallet sample_env (cosmosAddress other_wallet) ''a'' stored_world =
        (Inl (Error ''No wallet found for requested address''), stored_world)
   \<and> fst (loadFromStorage sample_env (cosmosAddress sample_wallet) stored_world) =
      Inr (StoredWallet_json ''main'' (cosmosAddress sample_wallet)
          (fst (encrypt sample_env (show_json (Wallet_json sample_wallet)) ''a'' empty_world)))
   \<and> truthy (StoredWallet_json ''main'' (cosmosAddress sample_wallet)
          (fst (encrypt sample_env (show_json (Wallet_json sample_wallet)) ''a'' empty_world)))
   \<and> try_decrypt sample_env
        (StoredWallet_json ''main'' (cosmosAddress sample_wallet)
          (fst (encrypt sample_env (show_json (Wallet_json sample_wallet)) ''a'' empty_world))) ''b'' = None
   \<and> removeWallet sample_env (cosmosAddress sample_wallet) ''b'' stored_world =
        (Inl (Error ''Password for wallet is incorrect''), stored_world)
   \<and> removeWallet sample_env (cosmosAddress sample_wallet) ''a'' stored_world = (Inr (), removed_world)
   \<and> testPassword sample_env (cosmosAddress sample_wallet) ''a'' stored_world = (Inr (), stored_world)
   \<and> (\<exists>xs. fst (getWalletIndex sample_env stored_world) = Inr (JArr xs)
         \<and> removed_world = removeItem (KEY_TAG @ ''-'' @ cosmosAddress sample_wallet)
               (setItem (KEY_TAG @ ''-index'')
                  (JSON_stringify sample_env
                     (JArr (filter (\<lambda>x. member x ''address'' \<noteq> Some (JStr (cosmosAddress sample_wallet))) xs)))
                  stored_world))"
proof -
  let ?sw = "StoredWallet_json ''main'' (cosmosAddress sample_wallet)
          (fst (encrypt sample_env (show_json (Wallet_json sample_wallet)) ''a'' empty_world))"
  have t: "truthy ?sw" by (simp add: StoredWallet_json_def)
  have 1: "removeWallet sample_env (cosmosAddress other_wallet) ''a'' stored_world =
        (Inl (Error ''No wallet found for requested address''), stored_world)"
    using removeWallet_checks_then_deletes [of sample_env "cosmosAddress other_wallet" stored_world JNull "''a''"]
      load_other_stored_world by simp
  have 2: "removeWallet sample_env (cosmosAddress sample_wallet) ''b'' stored_world =
        (Inl (Error ''Password for wallet is incorrect''), stored_world)"
    using removeWallet_checks_then_deletes [of sample_env "cosmosAddress sample_wallet" stored_world ?sw "''b''"]
      load_stored_world t try_decrypt_stored_b by simp
  have 3: "testPassword sample_env (cosmosAddress sample_wallet) ''a'' stored_world = (Inr (), stored_world)
   \<and> (\<exists>xs. fst (getWalletIndex sample_env stored_world) = Inr (JArr xs)
         \<and> removed_world = removeItem (KEY_TAG @ ''-'' @ cosmosAddress sample_wallet)
               (setItem (KEY_TAG @ ''-index'')
                  (JSON_stringify sample_env
                     (JArr (filter (\<lambda>x. member x ''address'' \<noteq> Some (JStr (cosmosAddress sample_wallet))) xs)))
                  stored_world))"
    using removeWallet_checks_then_deletes [of sample_env "cosmosAddress sample_wallet" stored_world ?sw "''a''" removed_world]
      removeWallet_stored_a by blast
  show ?thesis
    using 1 2 3 load_other_stored_world load_stored_world t try_decrypt_stored_b removeWallet_stored_a
    by simp
qed

text \<open>
  C5, as stated, fails where it says that a wrong password is refused: a password other
  than the one the wallet was stored under, deriving the same key, removes the wallet.
\<close>

theorem removeWallet_other_password:
  "storeWallet sample_env sample_wallet ''main'' ''a'' empty_world = (Inr (), stored_world)
   \<and> [CHR ''a'', CHR 0x00] \<noteq> ''a''
   \<and> fst (removeWallet sample_env (cosmosAddress sample_wallet) [CHR ''a'', CHR 0x00] stored_world) = Inr ()
   \<and> localStorage (snd (removeWallet sample_env (cosmosAddress sample_wallet) [CHR ''a'', CHR 0x00] stored_world))
        (KEY_TAG @ ''-'' @ cosmosAddress sample_wallet) = None"
  using storeWallet_sample by (simp add: removeWallet_stored_a0 removeItem_def)

text \<open>
  C6. The text \<^verbatim>\<open>encrypt\<close> returns is the salt in hex, the initialisation vector in
  hex, then the text of the cipher. Salt and vector are 128 random bits each and take
  exactly 32 hex digits each. The key comes from \<^verbatim>\<open>PBKDF2\<close>, called with the password,
  the salt, a key size of 8 words of 32 bits (256 bits) and 100 iterations.
  \<^verbatim>\<open>decrypt\<close> reads the first 32 characters as the salt, the next 32 as the vector
  and the rest as the cipher text, and calls \<^verbatim>\<open>PBKDF2\<close> with the password it is given,
  the salt it read and the same two parameters; on a text that \<^verbatim>\<open>encrypt\<close> made, the
  three parts it reads are the three parts that were written.
\<close>

theorem encrypt_decrypt_layout:
  "fst (encrypt env message password w) =
     WordArray_toString (drawn_salt w) @ WordArray_toString (drawn_iv w) @
        AES_encrypt env message (PBKDF2 env password (drawn_salt w) 8 100) (drawn_iv w)
   \<and> 8 * length (drawn_salt w) = 128 \<and> 8 * length (drawn_iv w) = 128
   \<and> 32 * (keySize div 32) = 256 \<and> keySize div 32 = 8 \<and> iterations = 100
   \<and> length (WordArray_toString (drawn_salt w)) = 32
   \<and> length (WordArray_toString (drawn_iv w)) = 32
   \<and> set (WordArray_toString (drawn_salt w)) \<subseteq> set ''0123456789abcdef''
   \<and> set (WordArray_toString (drawn_iv w)) \<subseteq> set ''0123456789abcdef''
   \<and> decrypt env t password' =
       AES_decrypt env (drop 64 t)
         (PBKDF2 env password' (Hex_parse env (take 32 t)) 8 100)
         (Hex_parse env (take 32 (drop 32 t)))
   \<and> take 32 (fst (encrypt env message password w)) = WordArray_toString (drawn_salt w)
   \<and> take 32 (drop 32 (fst (encrypt env message password w))) = WordArray_toString (drawn_iv w)
   \<and> drop 64 (fst (encrypt env message password w)) =
       AES_encrypt env message (PBKDF2 env password (drawn_salt w) 8 100) (drawn_iv w)"
  using set_WordArray_toString [of "drawn_salt w"] set_WordArray_toString [of "drawn_iv w"]
  by (simp add: encrypt_eq decrypt_eq length_drawn length_WordArray_toString
      keySize_def iterations_def)

text \<open>
  C8. \<^verbatim>\<open>getCosmosAddress\<close> is a function of the bytes of the public key alone: equal
  inputs give equal text. The public key
  \<^verbatim>\<open>52FDFC072182654F163F5F0F9A621D729566C74D10037C4D7BBB0407D1E2C64981\<close> of the test
  encodes to \<^verbatim>\<open>cosmos1v3z3242hq7xrms35gu722v4nt8uux8nvug5gye\<close>.
\<close>

theorem getCosmosAddress_test_vector:
  "(\<forall>key key'. key = key' \<longrightarrow> getCosmosAddress key = getCosmosAddress key')
   \<and> getCosmosAddress
        [0x52, 0xFD, 0xFC, 0x07, 0x21, 0x82, 0x65, 0x4F, 0x16, 0x3F, 0x5F, 0x0F, 0x9A, 0x62, 0x1D,
         0x72, 0x95, 0x66, 0xC7, 0x4D, 0x10, 0x03, 0x7C, 0x4D, 0x7B, 0xBB, 0x04, 0x07, 0xD1, 0xE2,
         0xC6, 0x49, 0x81]
      = ''cosmos1v3z3242hq7xrms35gu722v4nt8uux8nvug5gye''"
  using getCosmosAddress_pk1 by simp

theorem getCosmosAddress_test_vector_witness:
  "getCosmosAddress [0x02, 0x03] = getCosmosAddress [0x02, 0x03]
   \<and> getCosmosAddress
        [0x52, 0xFD, 0xFC, 0x07, 0x21, 0x82, 0x65, 0x4F, 0x16, 0x3F, 0x5F, 0x0F, 0x9A, 0x62, 0x1D,
         0x72, 0x95, 0x66, 0xC7, 0x4D, 0x10, 0x03, 0x7C, 0x4D, 0x7B, 0xBB, 0x04, 0x07, 0xD1, 0xE2,
         0xC6, 0x49, 0x81]
      = ''cosmos1v3z3242hq7xrms35gu722v4nt8uux8nvug5gye''"
  using getCosmosAddress_test_vector by blast

text \<open>
  C10. On a store whose index key is absent \<^verbatim>\<open>getWalletIndex\<close> returns the empty
  array (the runtime reading \<^verbatim>\<open>[]\<close> as the empty array), and on no store does it
  change the state.
\<close>

theorem getWalletIndex_fresh:
  assumes "localStorage w (KEY_TAG @ ''-index'') = None"
    and "JSON_parse env ''[]'' = Some (JArr [])"
  shows "getWalletIndex env w = (Inr (JArr []), w) \<and> (\<forall>w'. snd (getWalletIndex env w') = w')"
  using assms by (simp add: snd_getWalletIndex) (simp add: getWalletIndex_def getItem_def or_default_def)

theorem getWalletIndex_fresh_witness:
  "localStorage empty_world (KEY_TAG @ ''-index'') = None
   \<and> JSON_parse sample_env ''[]'' = Some (JArr [])
   \<and> getWalletIndex sample_env empty_world = (Inr (JArr []), empty_world)
   \<and> snd (getWalletIndex sample_env (setItem (KEY_TAG @ ''-index'') ''[]'' empty_world))
        = setItem (KEY_TAG @ ''-index'') ''[]'' empty_world"
proof -
  have a: "localStorage empty_world (KEY_TAG @ ''-index'') = None"
    by (simp add: empty_world_def)
  have b: "JSON_parse sample_env ''[]'' = Some (JArr [])"
    by (simp add: sample_env_def read_json_def)
  show ?thesis using getWalletIndex_fresh [OF a b] a b by simp
qed

end
